theory Spec2Isabelle
  imports Complex_Main "HOL-Library.AList" "HOL-Library.Sublist"
begin

section \<open>Python values\<close>

text \<open>
  The three modules (animesh.py, bom.py, performance.py) are operators over the scene
  graph of the host application. Exceptions are values of \<open>py_error\<close>; an operator's
  result set \<open>{'FINISHED'}\<close> or \<open>{'CANCELLED'}\<close> is a \<open>retval\<close>. Python floats are
  taken as exact rationals: the operators only store them and compare them with
  constants.
\<close>

datatype py_error = AttributeError | IndexError | KeyError | ValueError | RuntimeError

datatype retval = FINISHED | CANCELLED

text \<open>
  What an operator emits: \<open>self.report({level}, message)\<close> and the module logger's
  \<open>log.info\<close> and \<open>log.warning\<close>. Strings are byte strings holding UTF-8.
\<close>

datatype event = Report string string | Log string string

definition check_mark :: string where
  "check_mark = [CHR 0xE2, CHR 0x9C, CHR 0x85]"

definition cross_mark :: string where
  "cross_mark = [CHR 0xE2, CHR 0x9D, CHR 0x8C]"

definition warning_sign :: string where
  "warning_sign = [CHR 0xE2, CHR 0x9A, CHR 0xA0, CHR 0xEF, CHR 0xB8, CHR 0x8F]"

definition newline :: string where
  "newline = [CHR 0x0A]"

definition digit_char :: "nat \<Rightarrow> char" where
  "digit_char d = ''0123456789'' ! d"

text \<open>\<open>str(n)\<close> and the f-string field \<open>{n}\<close> of a non-negative int.\<close>

fun str_nat :: "nat \<Rightarrow> string" where
  "str_nat n = (if n < 10 then [digit_char n] else str_nat (n div 10) @ [digit_char (n mod 10)])"

declare str_nat.simps [simp del]

definition str_int :: "int \<Rightarrow> string" where
  "str_int i = (if i < 0 then ''-'' @ str_nat (nat (- i)) else str_nat (nat i))"

definition pad3 :: "nat \<Rightarrow> string" where
  "pad3 k = [digit_char (k div 100 mod 10), digit_char (k div 10 mod 10), digit_char (k mod 10)]"

text \<open>The f-string field \<open>{n:,}\<close>: decimal digits in groups of three.\<close>

fun str_nat_commas :: "nat \<Rightarrow> string" where
  "str_nat_commas n =
     (if n < 1000 then str_nat n else str_nat_commas (n div 1000) @ '','' @ pad3 (n mod 1000))"

declare str_nat_commas.simps [simp del]

text \<open>
  The f-string fields \<open>{x:.0f}\<close> and \<open>{x:.3f}\<close>: the value rounded to that many
  decimals, a tie to the even neighbour.
\<close>

definition round_half_even :: "rat \<Rightarrow> int" where
  "round_half_even q =
     (let f = \<lfloor>q\<rfloor>; r = q - of_int f
      in if r < 1 / 2 then f else if 1 / 2 < r then f + 1 else if even f then f else f + 1)"

definition format_f0 :: "rat \<Rightarrow> string" where
  "format_f0 q = str_int (round_half_even q)"

definition format_f3 :: "rat \<Rightarrow> string" where
  "format_f3 q =
     (let n = round_half_even (q * 1000); m = nat (abs n)
      in (if n < 0 then ''-'' else '''') @ str_nat (m div 1000) @ ''.'' @ pad3 (m mod 1000))"

text \<open>\<open>sep.join(xs)\<close>.\<close>

fun join :: "string \<Rightarrow> string list \<Rightarrow> string" where
  "join sep [] = []"
| "join sep [x] = x"
| "join sep (x # y # ys) = x @ sep @ join sep (y # ys)"

text \<open>\<open>len(range(n))\<close>: a range with a negative bound is empty.\<close>

definition range_len :: "int \<Rightarrow> nat" where
  "range_len n = nat n"

section \<open>The host's scene graph\<close>

text \<open>
  An entry of \<open>v.groups\<close>: the index of a vertex group of the object and the weight.
  A vertex is its list of entries; \<open>v.index\<close> is its position in \<open>mesh.vertices\<close>.
\<close>

record vgroup_elem =
  ge_group :: nat
  ge_weight :: rat

type_synonym vertex = "vgroup_elem list"

text \<open>
  Mesh data: a polygon is the list of its vertex indices, a material slot holds the name
  of a material of \<open>bpy.data.materials\<close> or is empty.
\<close>

record mesh =
  me_vertices :: "vertex list"
  me_polygons :: "nat list list"
  me_uv_layers :: "string list"
  me_materials :: "string option list"

record bone =
  bn_name :: string
  bn_use_deform :: bool

text \<open>
  Armature data: \<open>bones\<close>, and \<open>edit_bones\<close>, which the host fills from \<open>bones\<close> on
  entering edit mode and writes back on leaving it (\<open>None\<close> outside edit mode).
\<close>

record armature =
  ar_bones :: "bone list"
  ar_edit_bones :: "bone list option"

datatype obdata = MeshData mesh | ArmatureData armature | NoData

text \<open>
  A modifier; \<open>md_object\<close> names the target object of an armature modifier, the last
  three fields are the settings of a decimate modifier.
\<close>

record modifier =
  md_name :: string
  md_type :: string
  md_object :: "string option"
  md_decimate_type :: string
  md_ratio :: rat
  md_use_collapse_triangulate :: bool

text \<open>An object of \<open>bpy.data.objects\<close>; its name is its key there.\<close>

record object =
  ob_type :: string
  ob_data :: obdata
  ob_modifiers :: "modifier list"
  ob_vertex_groups :: "string list"
  ob_active_material_index :: nat

text \<open>
  A shader node: its input sockets with the default value of a scalar socket, its
  output sockets, and the image of a texture node. A node of a tree is referred to by
  its position in \<open>nodes\<close>, as a link does for its two ends.
\<close>

record node =
  nd_name :: string
  nd_label :: string
  nd_idname :: string
  nd_location :: "int \<times> int"
  nd_inputs :: "(string \<times> rat option) list"
  nd_outputs :: "string list"
  nd_image :: "string option"

record link =
  lk_from_node :: nat
  lk_from_socket :: string
  lk_to_node :: nat
  lk_to_socket :: string

record node_tree =
  nt_nodes :: "node list"
  nt_links :: "link list"

record material =
  mt_use_nodes :: bool
  mt_node_tree :: "node_tree option"

record image =
  im_width :: nat
  im_height :: nat
  im_alpha :: bool
  im_source :: string

text \<open>An entry of \<open>_mesh_cache\<close> of performance.py.\<close>

record cache_entry =
  ce_vertex_count :: nat
  ce_polygon_count :: nat
  ce_timestamp :: rat

text \<open>
  The state the operators read and write: \<open>bpy.data\<close>, the active object of the view
  layer, and the two module-level dictionaries of performance.py.
\<close>

record state =
  objects :: "string \<rightharpoonup> object"
  active :: "string option"
  materials :: "string \<rightharpoonup> material"
  images :: "string \<rightharpoonup> image"
  mesh_cache :: "string \<rightharpoonup> cache_entry"
  bone_cache :: "string \<rightharpoonup> cache_entry"

type_synonym outcome = "py_error + (retval \<times> state \<times> event list)"

subsection \<open>Reading the scene graph\<close>

text \<open>\<open>context.active_object\<close>, with its name.\<close>

definition active_object :: "state \<Rightarrow> (string \<times> object) option" where
  "active_object st =
     (case active st of
        None \<Rightarrow> None
      | Some n \<Rightarrow> (case objects st n of None \<Rightarrow> None | Some ob \<Rightarrow> Some (n, ob)))"

text \<open>\<open>mod.object\<close>: the target object, read through \<open>bpy.data.objects\<close>.\<close>

definition mod_object :: "state \<Rightarrow> modifier \<Rightarrow> (string \<times> object) option" where
  "mod_object st m =
     (case md_object m of
        None \<Rightarrow> None
      | Some n \<Rightarrow> (case objects st n of None \<Rightarrow> None | Some ob \<Rightarrow> Some (n, ob)))"

text \<open>
  The loop \<open>for mod in obj.modifiers: if mod.type == 'ARMATURE' and mod.object: ...; break\<close>
  of the operators.
\<close>

fun find_armature :: "state \<Rightarrow> modifier list \<Rightarrow> (string \<times> object) option" where
  "find_armature st [] = None"
| "find_armature st (m # ms) =
     (if md_type m = ''ARMATURE'' \<and> mod_object st m \<noteq> None then mod_object st m
      else find_armature st ms)"

text \<open>\<open>len([b for b in bones if b.use_deform])\<close>.\<close>

definition deform_count :: "bone list \<Rightarrow> nat" where
  "deform_count bs = length (filter bn_use_deform bs)"

text \<open>
  \<open>sum(1 for f in bm.faces for _ in range(len(f.verts) - 2))\<close>, the faces of the bmesh
  being the polygons of the mesh.
\<close>

definition triangle_count :: "mesh \<Rightarrow> nat" where
  "triangle_count me = sum_list (map (\<lambda>f. range_len (int (length f) - 2)) (me_polygons me))"

text \<open>The indices of the vertices with \<open>len(v.groups) == 0\<close>.\<close>

definition unweighted_vertices :: "mesh \<Rightarrow> nat list" where
  "unweighted_vertices me =
     map fst (filter (\<lambda>(i, v). length v = 0) (enumerate 0 (me_vertices me)))"

text \<open>
  The names \<open>obj.vertex_groups[g.group].name\<close> over every entry \<open>g\<close> of every vertex
  with \<open>g.group < len(obj.vertex_groups)\<close>.
\<close>

definition used_bones :: "object \<Rightarrow> mesh \<Rightarrow> string list" where
  "used_bones obj me =
     map (\<lambda>g. ob_vertex_groups obj ! ge_group g)
       (filter (\<lambda>g. ge_group g < length (ob_vertex_groups obj)) (concat (me_vertices me)))"

subsection \<open>Host operations\<close>

text \<open>
  Names are unique within a collection of the host: a name that is taken gets the first
  free suffix \<open>.001\<close>, \<open>.002\<close>, ... (for a base name that does not itself end in such a
  suffix, as every name the operators pass).
\<close>

definition name_suffix :: "nat \<Rightarrow> string" where
  "name_suffix k = ''.'' @ (if k < 1000 then pad3 k else str_nat k)"

definition unique_name :: "string list \<Rightarrow> string \<Rightarrow> string" where
  "unique_name taken base =
     (if base \<notin> set taken then base
      else case find (\<lambda>c. c \<notin> set taken)
                  (map (\<lambda>k. base @ name_suffix k) [1 ..< length taken + 2]) of
             None \<Rightarrow> base
           | Some c \<Rightarrow> c)"

text \<open>
  \<open>bpy.ops.object.mode_set(mode=...)\<close> on the active object. Entering edit mode on an
  armature fills \<open>edit_bones\<close> from \<open>bones\<close>; leaving it writes them back.
\<close>

definition mode_set :: "string \<Rightarrow> state \<Rightarrow> py_error + state" where
  "mode_set mode st =
     (case active_object st of
        None \<Rightarrow> Inl RuntimeError
      | Some (n, ob) \<Rightarrow>
          (case ob_data ob of
             ArmatureData a \<Rightarrow>
               (if mode = ''EDIT'' then
                  (case ar_edit_bones a of
                     None \<Rightarrow> Inr (st\<lparr>objects := (objects st)(n \<mapsto>
                               ob\<lparr>ob_data := ArmatureData (a\<lparr>ar_edit_bones := Some (ar_bones a)\<rparr>)\<rparr>)\<rparr>)
                   | Some eb \<Rightarrow> Inr st)
                else
                  (case ar_edit_bones a of
                     None \<Rightarrow> Inr st
                   | Some eb \<Rightarrow> Inr (st\<lparr>objects := (objects st)(n \<mapsto>
                               ob\<lparr>ob_data := ArmatureData (a\<lparr>ar_bones := eb, ar_edit_bones := None\<rparr>)\<rparr>)\<rparr>)))
           | _ \<Rightarrow> Inr st))"

section \<open>animesh.py\<close>

definition ANIMESH_MAX_BONES :: nat where
  "ANIMESH_MAX_BONES = 110"

definition ANIMESH_MAX_TRIANGLES :: nat where
  "ANIMESH_MAX_TRIANGLES = 32768"

text \<open>The three lines of the validation report, in the order the operator appends them.\<close>

definition validate_issues :: "nat \<Rightarrow> nat \<Rightarrow> nat list \<Rightarrow> string list" where
  "validate_issues bone_count tri_count unweighted =
     [ (if bone_count > ANIMESH_MAX_BONES
        then cross_mark @ '' Too many bones: '' @ str_nat bone_count @ ''/'' @ str_nat ANIMESH_MAX_BONES
        else check_mark @ '' Bone count: '' @ str_nat bone_count @ ''/'' @ str_nat ANIMESH_MAX_BONES),
       (if tri_count > ANIMESH_MAX_TRIANGLES
        then cross_mark @ '' Too many triangles: '' @ str_nat_commas tri_count @ ''/''
               @ str_nat_commas ANIMESH_MAX_TRIANGLES
        else check_mark @ '' Triangle count: '' @ str_nat_commas tri_count @ ''/''
               @ str_nat_commas ANIMESH_MAX_TRIANGLES),
       (if unweighted \<noteq> []
        then cross_mark @ '' Unweighted vertices: '' @ str_nat (length unweighted)
        else check_mark @ '' All vertices weighted'') ]"

text \<open>\<open>AVASTAR_OT_animesh_validate.execute\<close>.\<close>

definition animesh_validate :: "state \<Rightarrow> outcome" where
  "animesh_validate st =
     (case active_object st of
        None \<Rightarrow> Inr (CANCELLED, st, [Report ''ERROR'' ''Please select a mesh object''])
      | Some (nm, obj) \<Rightarrow>
          if ob_type obj \<noteq> ''MESH''
          then Inr (CANCELLED, st, [Report ''ERROR'' ''Please select a mesh object''])
          else
            (case find_armature st (ob_modifiers obj) of
               None \<Rightarrow> Inr (CANCELLED, st, [Report ''ERROR'' ''Mesh has no armature modifier''])
             | Some (an, arm) \<Rightarrow>
                 (case ob_data arm of
                    ArmatureData ad \<Rightarrow>
                      (case ob_data obj of
                         MeshData me \<Rightarrow>
                           (let bone_count = deform_count (ar_bones ad);
                                tri_count = triangle_count me;
                                unweighted = unweighted_vertices me;
                                issues = validate_issues bone_count tri_count unweighted
                            in Inr (FINISHED, st,
                                 [Report ''INFO'' (''Animesh Validation:'' @ newline @ join newline issues),
                                  Log ''INFO'' ''Animesh Validation Report:'']
                                 @ map (\<lambda>issue. Log ''INFO'' (''  '' @ issue)) issues
                                 @ [if list_all (sublist check_mark) issues
                                    then Report ''INFO'' ''Mesh is Animesh compatible!''
                                    else Report ''WARNING'' ''Mesh has Animesh compatibility issues'']))
                       | _ \<Rightarrow> Inl AttributeError)
                  | _ \<Rightarrow> Inl AttributeError)))"

text \<open>
  The loop \<open>for bone in armature.data.edit_bones: if bone.use_deform and bone.name not in
  used_bones: armature.data.edit_bones.remove(bone); removed_count += 1\<close>. The host's
  collection iterator has moved on to the next bone before the body runs, so every bone
  that was in the collection when the loop started is visited once, and removing the one
  at hand does not disturb the walk.
\<close>

fun remove_unused_loop :: "string set \<Rightarrow> bone list \<Rightarrow> bone list \<Rightarrow> nat \<Rightarrow> bone list \<times> nat" where
  "remove_unused_loop used [] eb removed = (eb, removed)"
| "remove_unused_loop used (b # bs) eb removed =
     (if bn_use_deform b \<and> bn_name b \<notin> used
      then remove_unused_loop used bs (remove1 b eb) (removed + 1)
      else remove_unused_loop used bs eb removed)"

text \<open>\<open>armature.data.bones\<close> of an object.\<close>

definition bones_of :: "object \<Rightarrow> py_error + bone list" where
  "bones_of arm = (case ob_data arm of ArmatureData ad \<Rightarrow> Inr (ar_bones ad) | _ \<Rightarrow> Inl AttributeError)"

text \<open>
  The body of \<open>if self.remove_unused:\<close>: the armature is made active and put in edit
  mode, the unused deform bones are removed, and mode and active object are restored.
\<close>

definition remove_unused_bones :: "string \<Rightarrow> object \<Rightarrow> mesh \<Rightarrow> string \<Rightarrow> state \<Rightarrow> py_error + state" where
  "remove_unused_bones nm obj me an st =
     (let used = set (used_bones obj me);
          st1 = st\<lparr>active := Some an\<rparr>
      in case mode_set ''EDIT'' st1 of
           Inl e \<Rightarrow> Inl e
         | Inr st2 \<Rightarrow>
             (case objects st2 an of
                None \<Rightarrow> Inl AttributeError
              | Some arm2 \<Rightarrow>
                  (case ob_data arm2 of
                     ArmatureData a2 \<Rightarrow>
                       (let eb = (case ar_edit_bones a2 of None \<Rightarrow> [] | Some bs \<Rightarrow> bs);
                            (eb', removed_count) = remove_unused_loop used eb eb 0;
                            st3 = st2\<lparr>objects := (objects st2)(an \<mapsto>
                                    arm2\<lparr>ob_data := ArmatureData (a2\<lparr>ar_edit_bones :=
                                      (case ar_edit_bones a2 of None \<Rightarrow> None | Some bs \<Rightarrow> Some eb')\<rparr>)\<rparr>)\<rparr>
                        in case mode_set ''OBJECT'' st3 of
                             Inl e \<Rightarrow> Inl e
                           | Inr st4 \<Rightarrow> Inr (st4\<lparr>active := Some nm\<rparr>))
                   | _ \<Rightarrow> Inl AttributeError)))"

text \<open>\<open>AVASTAR_OT_animesh_optimize_bones.execute\<close>, with its property \<open>remove_unused\<close>.\<close>

definition animesh_optimize_bones :: "bool \<Rightarrow> state \<Rightarrow> outcome" where
  "animesh_optimize_bones remove_unused st =
     (case active_object st of
        None \<Rightarrow> Inr (CANCELLED, st, [Report ''ERROR'' ''Please select a mesh object''])
      | Some (nm, obj) \<Rightarrow>
          if ob_type obj \<noteq> ''MESH''
          then Inr (CANCELLED, st, [Report ''ERROR'' ''Please select a mesh object''])
          else
            (case find_armature st (ob_modifiers obj) of
               None \<Rightarrow> Inr (CANCELLED, st, [Report ''ERROR'' ''Mesh has no armature modifier''])
             | Some (an, arm) \<Rightarrow>
                 (case bones_of arm of
                    Inl e \<Rightarrow> Inl e
                  | Inr bs \<Rightarrow>
                      (let initial_bone_count = deform_count bs
                       in case (if remove_unused
                                then (case ob_data obj of
                                        MeshData me \<Rightarrow> remove_unused_bones nm obj me an st
                                      | _ \<Rightarrow> Inl AttributeError)
                                else Inr st) of
                            Inl e \<Rightarrow> Inl e
                          | Inr st' \<Rightarrow>
                              (case objects st' an of
                                 None \<Rightarrow> Inl AttributeError
                               | Some arm' \<Rightarrow>
                                   (case bones_of arm' of
                                      Inl e \<Rightarrow> Inl e
                                    | Inr bs' \<Rightarrow>
                                        (let final_bone_count = deform_count bs';
                                             bones_removed = int initial_bone_count - int final_bone_count
                                         in Inr (FINISHED, st',
                                              [Report ''INFO'' (''Removed '' @ str_int bones_removed
                                                 @ '' unused bones ('' @ str_nat final_bone_count
                                                 @ '' remaining)'')]))))))))"

text \<open>
  \<open>obj.modifiers.new(name, type)\<close>: a modifier of that type with the host's defaults
  for a decimate modifier, under a name unique among the object's modifiers.
\<close>

definition modifiers_new :: "string \<Rightarrow> string \<Rightarrow> modifier list \<Rightarrow> modifier" where
  "modifiers_new name mtype mods =
     \<lparr>md_name = unique_name (map md_name mods) name, md_type = mtype, md_object = None,
      md_decimate_type = ''COLLAPSE'', md_ratio = 1, md_use_collapse_triangulate = False\<rparr>"

text \<open>\<open>AVASTAR_OT_animesh_reduce_triangles.execute\<close>, with its property \<open>ratio\<close>.\<close>

definition animesh_reduce_triangles :: "rat \<Rightarrow> state \<Rightarrow> outcome" where
  "animesh_reduce_triangles ratio st =
     (case active_object st of
        None \<Rightarrow> Inr (CANCELLED, st, [Report ''ERROR'' ''Please select a mesh object''])
      | Some (nm, obj) \<Rightarrow>
          if ob_type obj \<noteq> ''MESH''
          then Inr (CANCELLED, st, [Report ''ERROR'' ''Please select a mesh object''])
          else
            (let decimate = modifiers_new ''Animesh_Decimate'' ''DECIMATE'' (ob_modifiers obj);
                 decimate = decimate\<lparr>md_decimate_type := ''COLLAPSE''\<rparr>;
                 decimate = decimate\<lparr>md_ratio := ratio\<rparr>;
                 decimate = decimate\<lparr>md_use_collapse_triangulate := True\<rparr>
             in Inr (FINISHED,
                  st\<lparr>objects := (objects st)(nm \<mapsto> obj\<lparr>ob_modifiers := ob_modifiers obj @ [decimate]\<rparr>)\<rparr>,
                  [Report ''INFO'' (''Added decimate modifier with '' @ format_f0 (ratio * 100)
                     @ ''% ratio'')])))"

section \<open>bom.py\<close>

subsection \<open>Host operations on materials, node trees and images\<close>

text \<open>
  \<open>nodes.new(type)\<close> creates a node of the named type under the type's default name,
  made unique in the tree. The sockets listed are the ones the operators use.
\<close>

definition node_template :: "string \<Rightarrow> node option" where
  "node_template idname =
     (if idname = ''ShaderNodeBsdfPrincipled'' then
        Some \<lparr>nd_name = ''Principled BSDF'', nd_label = [], nd_idname = idname, nd_location = (0, 0),
              nd_inputs = [(''Base Color'', None), (''Specular'', Some (1 / 2)), (''Roughness'', Some (1 / 2))],
              nd_outputs = [''BSDF''], nd_image = None\<rparr>
      else if idname = ''ShaderNodeOutputMaterial'' then
        Some \<lparr>nd_name = ''Material Output'', nd_label = [], nd_idname = idname, nd_location = (0, 0),
              nd_inputs = [(''Surface'', None), (''Volume'', None), (''Displacement'', None)],
              nd_outputs = [], nd_image = None\<rparr>
      else if idname = ''ShaderNodeTexImage'' then
        Some \<lparr>nd_name = ''Image Texture'', nd_label = [], nd_idname = idname, nd_location = (0, 0),
              nd_inputs = [(''Vector'', None)],
              nd_outputs = [''Color'', ''Alpha''], nd_image = None\<rparr>
      else None)"

definition nodes_new :: "string \<Rightarrow> node_tree \<Rightarrow> py_error + (nat \<times> node_tree)" where
  "nodes_new idname t =
     (case node_template idname of
        None \<Rightarrow> Inl RuntimeError
      | Some n \<Rightarrow>
          (let nm = unique_name (map nd_name (nt_nodes t)) (nd_name n)
           in Inr (length (nt_nodes t), t\<lparr>nt_nodes := nt_nodes t @ [n\<lparr>nd_name := nm\<rparr>]\<rparr>)))"

text \<open>\<open>nodes.get(name)\<close>: the first node of that name, if any.\<close>

fun first_named :: "string \<Rightarrow> node list \<Rightarrow> nat option" where
  "first_named nm [] = None"
| "first_named nm (n # ns) =
     (if nd_name n = nm then Some 0 else map_option Suc (first_named nm ns))"

definition nodes_get :: "string \<Rightarrow> node_tree \<Rightarrow> nat option" where
  "nodes_get nm t = first_named nm (nt_nodes t)"

text \<open>\<open>nodes.clear()\<close>: the links go with the nodes.\<close>

definition nodes_clear :: "node_tree \<Rightarrow> node_tree" where
  "nodes_clear t = t\<lparr>nt_nodes := [], nt_links := []\<rparr>"

text \<open>An assignment to an attribute of the node at a position.\<close>

definition update_node :: "nat \<Rightarrow> (node \<Rightarrow> node) \<Rightarrow> node_tree \<Rightarrow> node_tree" where
  "update_node i f t = t\<lparr>nt_nodes := (nt_nodes t)[i := f (nt_nodes t ! i)]\<rparr>"

text \<open>
  \<open>node.name = new\<close>: the host makes the name unique among the other nodes of the
  tree.
\<close>

definition set_node_name :: "nat \<Rightarrow> string \<Rightarrow> node_tree \<Rightarrow> node_tree" where
  "set_node_name i new t =
     update_node i
       (\<lambda>n. n\<lparr>nd_name := unique_name (map nd_name (take i (nt_nodes t) @ drop (Suc i) (nt_nodes t))) new\<rparr>)
       t"

text \<open>
  \<open>links.new(a.outputs[from_socket], b.inputs[to_socket])\<close>: \<open>KeyError\<close> for a socket
  the node does not have; an input socket takes one link, so a link already into it
  is replaced.
\<close>

definition links_new :: "nat \<Rightarrow> string \<Rightarrow> nat \<Rightarrow> string \<Rightarrow> node_tree \<Rightarrow> py_error + node_tree" where
  "links_new a from_socket b to_socket t =
     (if a < length (nt_nodes t) \<and> b < length (nt_nodes t)
         \<and> from_socket \<in> set (nd_outputs (nt_nodes t ! a))
         \<and> to_socket \<in> set (map fst (nd_inputs (nt_nodes t ! b)))
      then Inr (t\<lparr>nt_links :=
             filter (\<lambda>l. \<not> (lk_to_node l = b \<and> lk_to_socket l = to_socket)) (nt_links t)
             @ [\<lparr>lk_from_node = a, lk_from_socket = from_socket,
                 lk_to_node = b, lk_to_socket = to_socket\<rparr>]\<rparr>)
      else Inl KeyError)"

text \<open>\<open>node.inputs[socket].default_value = x\<close>.\<close>

definition set_default_value :: "nat \<Rightarrow> string \<Rightarrow> rat \<Rightarrow> node_tree \<Rightarrow> py_error + node_tree" where
  "set_default_value i socket x t =
     (if i < length (nt_nodes t) \<and> socket \<in> set (map fst (nd_inputs (nt_nodes t ! i)))
      then Inr (update_node i
             (\<lambda>n. n\<lparr>nd_inputs := map (\<lambda>(s, v). if s = socket then (s, Some x) else (s, v)) (nd_inputs n)\<rparr>) t)
      else Inl KeyError)"

text \<open>The node tree a material gets when \<open>use_nodes\<close> is first enabled.\<close>

definition default_node_tree :: node_tree where
  "default_node_tree =
     \<lparr>nt_nodes =
        [\<lparr>nd_name = ''Principled BSDF'', nd_label = [], nd_idname = ''ShaderNodeBsdfPrincipled'',
          nd_location = (10, 300),
          nd_inputs = [(''Base Color'', None), (''Specular'', Some (1 / 2)), (''Roughness'', Some (1 / 2))],
          nd_outputs = [''BSDF''], nd_image = None\<rparr>,
         \<lparr>nd_name = ''Material Output'', nd_label = [], nd_idname = ''ShaderNodeOutputMaterial'',
          nd_location = (300, 300),
          nd_inputs = [(''Surface'', None), (''Volume'', None), (''Displacement'', None)],
          nd_outputs = [], nd_image = None\<rparr>],
      nt_links =
        [\<lparr>lk_from_node = 0, lk_from_socket = ''BSDF'', lk_to_node = 1, lk_to_socket = ''Surface''\<rparr>]\<rparr>"

text \<open>\<open>mat.use_nodes = True\<close>.\<close>

definition enable_use_nodes :: "material \<Rightarrow> material" where
  "enable_use_nodes m =
     m\<lparr>mt_use_nodes := True,
       mt_node_tree := (case mt_node_tree m of None \<Rightarrow> Some default_node_tree | Some t \<Rightarrow> Some t)\<rparr>"

text \<open>\<open>if not mat.use_nodes: mat.use_nodes = True\<close>.\<close>

definition ensure_use_nodes :: "material \<Rightarrow> material" where
  "ensure_use_nodes m = (if \<not> mt_use_nodes m then enable_use_nodes m else m)"

text \<open>\<open>bpy.data.materials.new(name=...)\<close>: a material without a node tree.\<close>

definition new_material :: material where
  "new_material = \<lparr>mt_use_nodes = False, mt_node_tree = None\<rparr>"

text \<open>\<open>obj.active_material\<close>: the material of the active slot of the mesh, with its name.\<close>

definition active_material :: "state \<Rightarrow> object \<Rightarrow> (string \<times> material) option" where
  "active_material st obj =
     (case ob_data obj of
        MeshData me \<Rightarrow>
          (if ob_active_material_index obj < length (me_materials me) then
             (case me_materials me ! ob_active_material_index obj of
                None \<Rightarrow> None
              | Some mn \<Rightarrow> (case materials st mn of None \<Rightarrow> None | Some m \<Rightarrow> Some (mn, m)))
           else None)
      | _ \<Rightarrow> None)"

subsection \<open>The operators\<close>

text \<open>
  The node graph \<open>bom_setup_material\<close> builds in a node tree: the nodes are cleared, a
  Principled BSDF and a Material Output are created and linked, and Specular and
  Roughness are set.
\<close>

definition build_bom_nodes :: "node_tree \<Rightarrow> py_error + node_tree" where
  "build_bom_nodes t =
     (case nodes_new ''ShaderNodeBsdfPrincipled'' (nodes_clear t) of
        Inl e \<Rightarrow> Inl e
      | Inr (bsdf, t1) \<Rightarrow>
          (case nodes_new ''ShaderNodeOutputMaterial'' (update_node bsdf (\<lambda>n. n\<lparr>nd_location := (0, 0)\<rparr>) t1) of
             Inl e \<Rightarrow> Inl e
           | Inr (output, t2) \<Rightarrow>
               (case links_new bsdf ''BSDF'' output ''Surface''
                       (update_node output (\<lambda>n. n\<lparr>nd_location := (300, 0)\<rparr>) t2) of
                  Inl e \<Rightarrow> Inl e
                | Inr t3 \<Rightarrow>
                    (case set_default_value bsdf ''Specular'' 0 t3 of
                       Inl e \<Rightarrow> Inl e
                     | Inr t4 \<Rightarrow> set_default_value bsdf ''Roughness'' 1 t4))))"

text \<open>\<open>AVASTAR_OT_bom_setup_material.execute\<close>.\<close>

definition bom_setup_material :: "state \<Rightarrow> outcome" where
  "bom_setup_material st =
     (case active_object st of
        None \<Rightarrow> Inr (CANCELLED, st, [Report ''ERROR'' ''Please select a mesh object''])
      | Some (nm, obj) \<Rightarrow>
          if ob_type obj \<noteq> ''MESH''
          then Inr (CANCELLED, st, [Report ''ERROR'' ''Please select a mesh object''])
          else
            (case ob_data obj of
               MeshData me \<Rightarrow>
                 if me_uv_layers me = []
                 then Inr (CANCELLED, st, [Report ''ERROR'' ''Mesh has no UV maps. Add UV coordinates first.''])
                 else
                   (let mat_name = nm @ ''_BoM'';
                        mat = (case materials st mat_name of
                                 None \<Rightarrow> enable_use_nodes new_material
                               | Some m \<Rightarrow> m)
                    in case mt_node_tree mat of
                         None \<Rightarrow> Inl AttributeError
                       | Some t \<Rightarrow>
                           (case build_bom_nodes t of
                              Inl e \<Rightarrow> Inl e
                            | Inr t' \<Rightarrow>
                                (let me' = (if me_materials me \<noteq> []
                                            then me\<lparr>me_materials := (me_materials me)[0 := Some mat_name]\<rparr>
                                            else me\<lparr>me_materials := me_materials me @ [Some mat_name]\<rparr>)
                                 in Inr (FINISHED,
                                      st\<lparr>materials := (materials st)(mat_name \<mapsto> mat\<lparr>mt_node_tree := Some t'\<rparr>),
                                         objects := (objects st)(nm \<mapsto> obj\<lparr>ob_data := MeshData me'\<rparr>)\<rparr>,
                                      [Report ''INFO'' (''BoM material '' @ [CHR 0x27] @ mat_name @ [CHR 0x27]
                                         @ '' created successfully'')]))))
             | _ \<Rightarrow> Inl AttributeError))"

text \<open>The values of the enum property \<open>layer_type\<close>.\<close>

datatype layer_type = SKIN | TATTOO | CLOTHING | EYEBROW | HAIR

fun layer_name :: "layer_type \<Rightarrow> string" where
  "layer_name SKIN = ''SKIN''"
| "layer_name TATTOO = ''TATTOO''"
| "layer_name CLOTHING = ''CLOTHING''"
| "layer_name EYEBROW = ''EYEBROW''"
| "layer_name HAIR = ''HAIR''"

text \<open>\<open>bpy.data.images.new(name, width=1024, height=1024, alpha=True)\<close>, then \<open>img.source = 'GENERATED'\<close>.\<close>

definition placeholder_image :: image where
  "placeholder_image = \<lparr>im_width = 1024, im_height = 1024, im_alpha = True, im_source = ''GENERATED''\<rparr>"

text \<open>
  The part of \<open>bom_add_layer_slot\<close> after the BSDF node was found: the texture node is
  created, named, labelled and placed, given its image, and linked to Base Color.
\<close>

definition add_layer_node :: "string \<Rightarrow> string \<Rightarrow> nat \<Rightarrow> node_tree \<Rightarrow> py_error + node_tree" where
  "add_layer_node lname img_name bsdf t =
     (case nodes_new ''ShaderNodeTexImage'' t of
        Inl e \<Rightarrow> Inl e
      | Inr (tex_node, t1) \<Rightarrow>
          (let t2 = set_node_name tex_node (''BoM_'' @ lname) t1;
               t3 = update_node tex_node (\<lambda>n. n\<lparr>nd_label := ''BoM '' @ lname\<rparr>) t2;
               t4 = update_node tex_node (\<lambda>n. n\<lparr>nd_location := (- 400, 0)\<rparr>) t3;
               t5 = update_node tex_node (\<lambda>n. n\<lparr>nd_image := Some img_name\<rparr>) t4
           in links_new tex_node ''Color'' bsdf ''Base Color'' t5))"

text \<open>\<open>AVASTAR_OT_bom_add_layer_slot.execute\<close>, with its property \<open>layer_type\<close>.\<close>

definition bom_add_layer_slot :: "layer_type \<Rightarrow> state \<Rightarrow> outcome" where
  "bom_add_layer_slot lt st =
     (case active_object st of
        None \<Rightarrow> Inr (CANCELLED, st, [Report ''ERROR'' ''Please select a mesh object''])
      | Some (nm, obj) \<Rightarrow>
          if ob_type obj \<noteq> ''MESH''
          then Inr (CANCELLED, st, [Report ''ERROR'' ''Please select a mesh object''])
          else
            (case active_material st obj of
               None \<Rightarrow> Inr (CANCELLED, st,
                         [Report ''ERROR'' (''No active material. Run '' @ [CHR 0x27] @ ''Setup BoM Material''
                            @ [CHR 0x27] @ '' first'')])
             | Some (mn, mat0) \<Rightarrow>
                 (let mat = ensure_use_nodes mat0;
                      st1 = st\<lparr>materials := (materials st)(mn \<mapsto> mat)\<rparr>
                  in case mt_node_tree mat of
                       None \<Rightarrow> Inl AttributeError
                     | Some t \<Rightarrow>
                         (case nodes_get ''Principled BSDF'' t of
                            None \<Rightarrow> Inr (CANCELLED, st1, [Report ''ERROR'' ''Material is not BoM compatible''])
                          | Some bsdf \<Rightarrow>
                              (let img_name = nm @ ''_'' @ layer_name lt @ ''_BoM'';
                                   imgs = (if img_name \<notin> dom (images st1)
                                           then (images st1)(img_name \<mapsto> placeholder_image)
                                           else images st1)
                               in case add_layer_node (layer_name lt) img_name bsdf t of
                                    Inl e \<Rightarrow> Inl e
                                  | Inr t' \<Rightarrow>
                                      Inr (FINISHED,
                                        st1\<lparr>materials := (materials st1)(mn \<mapsto> mat\<lparr>mt_node_tree := Some t'\<rparr>),
                                            images := imgs\<rparr>,
                                        [Report ''INFO'' (''Added '' @ layer_name lt @ '' BoM layer to material'')]))))))"

text \<open>\<open>AVASTAR_OT_bom_export_preview.execute\<close>.\<close>

definition bom_export_preview :: "state \<Rightarrow> outcome" where
  "bom_export_preview st =
     (case active_object st of
        None \<Rightarrow> Inr (CANCELLED, st, [Report ''ERROR'' ''Please select a mesh object''])
      | Some (nm, obj) \<Rightarrow>
          if ob_type obj \<noteq> ''MESH''
          then Inr (CANCELLED, st, [Report ''ERROR'' ''Please select a mesh object''])
          else
            (case active_material st obj of
               None \<Rightarrow> Inr (CANCELLED, st, [Report ''ERROR'' ''No material to preview''])
             | Some m \<Rightarrow>
                 Inr (FINISHED, st,
                   [Report ''INFO''
                      ''BoM preview generated (placeholder - requires full baking implementation)''])))"

section \<open>performance.py\<close>

subsection \<open>The caches and the timing decorator\<close>

text \<open>\<open>clear_performance_caches\<close>.\<close>

definition clear_performance_caches :: "state \<Rightarrow> state \<times> event list" where
  "clear_performance_caches st =
     (st\<lparr>mesh_cache := Map.empty, bone_cache := Map.empty\<rparr>,
      [Log ''INFO'' ''Performance caches cleared''])"

text \<open>
  What the wrapper of \<open>timed_operation\<close> logs after the wrapped function has returned,
  from the two readings of \<open>time.time()\<close> it takes before and after the call.
\<close>

definition timed_operation :: "string \<Rightarrow> rat \<Rightarrow> rat \<Rightarrow> event list" where
  "timed_operation fname start_time end_time =
     (let elapsed = end_time - start_time
      in if 1 / 10 < elapsed
         then [Log ''INFO'' (fname @ '' took '' @ format_f3 elapsed @ ''s'')]
         else [])"

text \<open>
  The body of \<open>get_cached_mesh_data\<close>; \<open>now\<close> is the reading of \<open>time.time()\<close> for the
  timestamp of a new entry.
\<close>

definition get_cached_mesh_data_body :: "rat \<Rightarrow> string \<Rightarrow> object \<Rightarrow> state \<Rightarrow> py_error + (cache_entry \<times> state)" where
  "get_cached_mesh_data_body now nm obj st =
     (case mesh_cache st nm of
        None \<Rightarrow>
          (case ob_data obj of
             MeshData me \<Rightarrow>
               (let vertex_count = length (me_vertices me);
                    polygon_count = length (me_polygons me);
                    entry = \<lparr>ce_vertex_count = vertex_count, ce_polygon_count = polygon_count,
                             ce_timestamp = now\<rparr>
                in Inr (entry, st\<lparr>mesh_cache := (mesh_cache st)(nm \<mapsto> entry)\<rparr>))
           | _ \<Rightarrow> Inl AttributeError)
      | Some entry \<Rightarrow> Inr (entry, st))"

text \<open>
  \<open>get_cached_mesh_data\<close> as decorated; the clock readings are those of the wrapper
  before the call, of the body, and of the wrapper after the call.
\<close>

definition get_cached_mesh_data :: "rat \<times> rat \<times> rat \<Rightarrow> string \<Rightarrow> object \<Rightarrow> state \<Rightarrow> py_error + (cache_entry \<times> state \<times> event list)" where
  "get_cached_mesh_data clock nm obj st =
     (case clock of
        (start_time, now, end_time) \<Rightarrow>
          (case get_cached_mesh_data_body now nm obj st of
             Inl e \<Rightarrow> Inl e
           | Inr (entry, st') \<Rightarrow>
               Inr (entry, st', timed_operation ''get_cached_mesh_data'' start_time end_time)))"

subsection \<open>Weight tables\<close>

text \<open>
  A Python dict from bone names to lists of \<open>(v.index, g.weight)\<close>, as an association
  list in insertion order.
\<close>

type_synonym weight_dict = "(string \<times> (nat \<times> rat) list) list"

text \<open>\<open>if k not in d: d[k] = []\<close> followed by \<open>d[k].extend(xs)\<close>.\<close>

definition dict_extend :: "string \<Rightarrow> (nat \<times> rat) list \<Rightarrow> weight_dict \<Rightarrow> weight_dict" where
  "dict_extend k xs d =
     AList.update k ((case map_of d k of None \<Rightarrow> [] | Some ys \<Rightarrow> ys) @ xs) d"

text \<open>The body of the loop over \<open>v.groups\<close> in \<open>optimize_weight_calculation\<close>.\<close>

definition add_weight :: "string list \<Rightarrow> string set \<Rightarrow> nat \<Rightarrow> vgroup_elem \<Rightarrow> weight_dict \<Rightarrow> weight_dict" where
  "add_weight vgs bone_names i g d =
     (if ge_group g < length vgs then
        (let vg_name = vgs ! ge_group g
         in if vg_name \<in> bone_names then dict_extend vg_name [(i, ge_weight g)] d else d)
      else d)"

text \<open>One chunk: the loop over its vertices, each with its index.\<close>

definition process_chunk :: "string list \<Rightarrow> string set \<Rightarrow> (nat \<times> vertex) list \<Rightarrow> weight_dict" where
  "process_chunk vgs bone_names chunk =
     fold (\<lambda>(i, v) d. fold (add_weight vgs bone_names i) v d) chunk []"

text \<open>
  The loop \<open>for start_idx in range(0, total_verts, chunk_size)\<close> for a positive
  \<open>chunk_size\<close>: the list \<open>results\<close> from \<open>start_idx\<close> on.
\<close>

function chunk_results :: "string list \<Rightarrow> string set \<Rightarrow> nat \<Rightarrow> nat \<Rightarrow> (nat \<times> vertex) list \<Rightarrow> weight_dict list" where
  "chunk_results vgs bone_names chunk_size start_idx ivs =
     (if 0 < chunk_size \<and> start_idx < length ivs then
        (let end_idx = min (start_idx + chunk_size) (length ivs);
             chunk = take (end_idx - start_idx) (drop start_idx ivs)
         in process_chunk vgs bone_names chunk
              # chunk_results vgs bone_names chunk_size (start_idx + chunk_size) ivs)
      else [])"
  by pat_completeness auto
termination
  by (relation "measure (\<lambda>(vgs, bone_names, chunk_size, start_idx, ivs). length ivs - start_idx)") auto

declare chunk_results.simps [simp del]

text \<open>The merge of the chunks' tables into \<open>final_weights\<close>.\<close>

definition merge_results :: "weight_dict list \<Rightarrow> weight_dict" where
  "merge_results results =
     fold (\<lambda>chunk_result d. fold (\<lambda>(bone_name, weights) d. dict_extend bone_name weights d) chunk_result d)
       results []"

text \<open>
  The body of \<open>optimize_weight_calculation\<close>. \<open>range\<close> raises \<open>ValueError\<close> for a step
  of zero and is empty for a negative one.
\<close>

definition optimize_weight_calculation_body :: "object \<Rightarrow> string set \<Rightarrow> int \<Rightarrow> py_error + weight_dict" where
  "optimize_weight_calculation_body obj bone_names chunk_size =
     (case ob_data obj of
        MeshData me \<Rightarrow>
          (if chunk_size = 0 then Inl ValueError
           else if chunk_size < 0 then Inr (merge_results [])
           else Inr (merge_results
                  (chunk_results (ob_vertex_groups obj) bone_names (nat chunk_size) 0
                     (enumerate 0 (me_vertices me)))))
      | _ \<Rightarrow> Inl AttributeError)"

text \<open>\<open>optimize_weight_calculation\<close> as decorated, with the wrapper's two clock readings.\<close>

definition optimize_weight_calculation :: "rat \<times> rat \<Rightarrow> object \<Rightarrow> string set \<Rightarrow> int \<Rightarrow> py_error + (weight_dict \<times> event list)" where
  "optimize_weight_calculation clock obj bone_names chunk_size =
     (case optimize_weight_calculation_body obj bone_names chunk_size of
        Inl e \<Rightarrow> Inl e
      | Inr d \<Rightarrow> Inr (d, timed_operation ''optimize_weight_calculation'' (fst clock) (snd clock)))"

subsection \<open>The profile operator\<close>

text \<open>The lines of the report and the warnings of the mesh analysis.\<close>

definition mesh_report :: "nat \<Rightarrow> nat \<Rightarrow> nat \<Rightarrow> nat \<Rightarrow> string list" where
  "mesh_report vcount pcount mod_count vg_count =
     [''Vertices: '' @ str_nat_commas vcount,
      ''Polygons: '' @ str_nat_commas pcount,
      ''Modifiers: '' @ str_nat mod_count,
      ''Weight Groups: '' @ str_nat vg_count]"

definition mesh_warnings :: "nat \<Rightarrow> nat \<Rightarrow> nat \<Rightarrow> string list" where
  "mesh_warnings vcount mod_count vg_count =
     (if 50000 < vcount
      then [warning_sign @ '' High vertex count ('' @ str_nat_commas vcount
              @ ''). Consider LOD optimization.'']
      else [])
     @ (if 5 < mod_count
        then [warning_sign @ '' Many modifiers ('' @ str_nat mod_count
                @ ''). May impact viewport performance.'']
        else [])
     @ (if 100 < vg_count
        then [warning_sign @ '' Many weight groups ('' @ str_nat vg_count
                @ ''). Animesh limit is 110 bones.'']
        else [])"

text \<open>The lines of the report and the warnings of the armature analysis.\<close>

definition armature_report :: "bone list \<Rightarrow> string list" where
  "armature_report bs =
     [''Total Bones: '' @ str_nat (length bs), ''Deform Bones: '' @ str_nat (deform_count bs)]"

definition armature_warnings :: "bone list \<Rightarrow> string list" where
  "armature_warnings bs =
     (if 110 < deform_count bs
      then [warning_sign @ '' Exceeds Animesh bone limit ('' @ str_nat (deform_count bs) @ ''/110)'']
      else [])"

text \<open>What the operator emits at its end from \<open>report\<close> and \<open>warnings\<close>.\<close>

definition profile_events :: "string list \<Rightarrow> string list \<Rightarrow> event list" where
  "profile_events report warnings =
     Report ''INFO'' (join newline report)
     # (if warnings \<noteq> []
        then Log ''WARNING'' ''Performance Warnings:'' # map (\<lambda>w. Log ''WARNING'' (''  '' @ w)) warnings
        else [])"

text \<open>
  \<open>AVASTAR_OT_performance_profile.execute\<close>; the clock readings are those of the call
  of \<open>get_cached_mesh_data\<close>.
\<close>

definition performance_profile :: "rat \<times> rat \<times> rat \<Rightarrow> state \<Rightarrow> outcome" where
  "performance_profile clock st =
     (case active_object st of
        None \<Rightarrow> Inr (CANCELLED, st, [Report ''ERROR'' ''No active object''])
      | Some (nm, obj) \<Rightarrow>
          (case (if ob_type obj = ''MESH''
                 then (case get_cached_mesh_data clock nm obj st of
                         Inl e \<Rightarrow> Inl e
                       | Inr (entry, st', evs) \<Rightarrow>
                           Inr (st', evs,
                             mesh_report (ce_vertex_count entry) (ce_polygon_count entry)
                               (length (ob_modifiers obj)) (length (ob_vertex_groups obj)),
                             mesh_warnings (ce_vertex_count entry)
                               (length (ob_modifiers obj)) (length (ob_vertex_groups obj))))
                 else Inr (st, [], [], [])) of
             Inl e \<Rightarrow> Inl e
           | Inr (st', evs, report, warnings) \<Rightarrow>
               (case find_armature st' (if ob_type obj = ''MESH'' then ob_modifiers obj else []) of
                  None \<Rightarrow> Inr (FINISHED, st', evs @ profile_events report warnings)
                | Some (an, arm) \<Rightarrow>
                    (case bones_of arm of
                       Inl e \<Rightarrow> Inl e
                     | Inr bs \<Rightarrow>
                         Inr (FINISHED, st',
                           evs @ profile_events (report @ armature_report bs)
                                   (warnings @ armature_warnings bs))))))"

subsection \<open>The optimize operator\<close>

text \<open>
  \<open>obj.vertex_groups[gi].remove([v.index])\<close> on the entries of vertex \<open>v\<close>: the host
  drops the vertex's entry for that group.
\<close>

fun remove_from_group :: "nat \<Rightarrow> vertex \<Rightarrow> vertex" where
  "remove_from_group gi [] = []"
| "remove_from_group gi (g # gs) = (if ge_group g = gi then gs else g # remove_from_group gi gs)"

text \<open>
  The loop \<open>for g in list(v.groups)\<close> of the weight cleaning, over a copy of the entries
  of one vertex; \<open>ngroups\<close> is \<open>len(obj.vertex_groups)\<close>, and indexing past it raises.
\<close>

fun clean_vertex :: "nat \<Rightarrow> vgroup_elem list \<Rightarrow> vertex \<Rightarrow> nat \<Rightarrow> py_error + (vertex \<times> nat)" where
  "clean_vertex ngroups [] v cleaned = Inr (v, cleaned)"
| "clean_vertex ngroups (g # gs) v cleaned =
     (if ge_weight g < 1 / 1000 then
        (if ge_group g < ngroups
         then clean_vertex ngroups gs (remove_from_group (ge_group g) v) (cleaned + 1)
         else Inl IndexError)
      else clean_vertex ngroups gs v cleaned)"

text \<open>The loop \<open>for v in obj.data.vertices\<close> around it.\<close>

fun clean_vertices :: "nat \<Rightarrow> vertex list \<Rightarrow> nat \<Rightarrow> py_error + (vertex list \<times> nat)" where
  "clean_vertices ngroups [] cleaned = Inr ([], cleaned)"
| "clean_vertices ngroups (v # vs) cleaned =
     (case clean_vertex ngroups v v cleaned of
        Inl e \<Rightarrow> Inl e
      | Inr (v', cleaned') \<Rightarrow>
          (case clean_vertices ngroups vs cleaned' of
             Inl e \<Rightarrow> Inl e
           | Inr (vs', cleaned'') \<Rightarrow> Inr (v' # vs', cleaned'')))"

text \<open>
  \<open>obj.vertex_groups.remove(obj.vertex_groups[i])\<close>: the host removes the group, drops
  the entries of every vertex for it, and moves the indices above it down by one.
\<close>

definition vertex_groups_remove :: "nat \<Rightarrow> string list \<times> vertex list \<Rightarrow> string list \<times> vertex list" where
  "vertex_groups_remove i s =
     (take i (fst s) @ drop (Suc i) (fst s),
      map (\<lambda>v. map (\<lambda>g. if i < ge_group g then g\<lparr>ge_group := ge_group g - 1\<rparr> else g)
                 (filter (\<lambda>g. ge_group g \<noteq> i) v))
          (snd s))"

text \<open>The set \<open>used_groups\<close>.\<close>

definition used_groups :: "vertex list \<Rightarrow> nat set" where
  "used_groups vs = set (map ge_group (concat vs))"

text \<open>
  The loop \<open>for i in range(len(obj.vertex_groups) - 1, -1, -1)\<close>: the first argument
  is one more than the next \<open>i\<close>.
\<close>

fun remove_groups_loop :: "nat \<Rightarrow> nat set \<Rightarrow> string list \<times> vertex list \<Rightarrow> nat \<Rightarrow> (string list \<times> vertex list) \<times> nat" where
  "remove_groups_loop 0 used s removed = (s, removed)"
| "remove_groups_loop (Suc i) used s removed =
     (if i \<notin> used
      then remove_groups_loop i used (vertex_groups_remove i s) (removed + 1)
      else remove_groups_loop i used s removed)"

text \<open>\<open>obj.modifiers.find(name)\<close>: the index of the modifier of that name, or \<open>-1\<close>.\<close>

fun modifiers_find :: "string \<Rightarrow> modifier list \<Rightarrow> int" where
  "modifiers_find nm [] = - 1"
| "modifiers_find nm (m # ms) =
     (if md_name m = nm then 0
      else (let k = modifiers_find nm ms in if k < 0 then - 1 else k + 1))"

text \<open>
  \<open>bpy.ops.object.modifier_move_down(modifier=name)\<close> on the modifier stack of the
  active object: the modifier changes places with the one after it.
\<close>

fun modifier_move_down :: "string \<Rightarrow> modifier list \<Rightarrow> modifier list" where
  "modifier_move_down nm [] = []"
| "modifier_move_down nm [m] = [m]"
| "modifier_move_down nm (m # m' # ms) =
     (if md_name m = nm then m' # m # ms else m # modifier_move_down nm (m' # ms))"

text \<open>
  The loop \<open>while obj.modifiers.find(mod.name) < len(obj.modifiers) - 1\<close>; \<open>None\<close> is a
  loop that does not end.
\<close>

partial_function (option) move_to_end :: "string \<Rightarrow> modifier list \<Rightarrow> modifier list option" where
  "move_to_end nm mods =
     (if modifiers_find nm mods < int (length mods) - 1
      then move_to_end nm (modifier_move_down nm mods)
      else Some mods)"

fun move_all_to_end :: "string list \<Rightarrow> modifier list \<Rightarrow> modifier list option" where
  "move_all_to_end [] mods = Some mods"
| "move_all_to_end (nm # nms) mods =
     (case move_to_end nm mods of None \<Rightarrow> None | Some mods' \<Rightarrow> move_all_to_end nms mods')"

text \<open>The three optional steps, each with the entries it adds to \<open>changes\<close>.\<close>

definition clean_weights_step :: "bool \<Rightarrow> nat \<Rightarrow> vertex list \<Rightarrow> py_error + (vertex list \<times> string list)" where
  "clean_weights_step clean_weights ngroups vs =
     (if clean_weights then
        (case clean_vertices ngroups vs 0 of
           Inl e \<Rightarrow> Inl e
         | Inr (vs', cleaned) \<Rightarrow>
             Inr (vs', if 0 < cleaned
                       then [''Cleaned '' @ str_nat cleaned @ '' zero-weight assignments'']
                       else []))
      else Inr (vs, []))"

definition remove_unused_groups_step :: "bool \<Rightarrow> string list \<times> vertex list \<Rightarrow> (string list \<times> vertex list) \<times> string list" where
  "remove_unused_groups_step remove_unused_groups s =
     (if remove_unused_groups then
        (case remove_groups_loop (length (fst s)) (used_groups (snd s)) s 0 of
           (s', removed) \<Rightarrow>
             (s', if 0 < removed
                  then [''Removed '' @ str_nat removed @ '' unused weight groups'']
                  else []))
      else (s, []))"

definition optimize_modifiers_step :: "bool \<Rightarrow> modifier list \<Rightarrow> (modifier list \<times> string list) option" where
  "optimize_modifiers_step optimize_modifiers mods =
     (if optimize_modifiers then
        (let armature_mods = filter (\<lambda>m. md_type m = ''ARMATURE'') mods
         in case move_all_to_end (map md_name armature_mods) mods of
              None \<Rightarrow> None
            | Some mods' \<Rightarrow>
                Some (mods', if armature_mods \<noteq> []
                             then [''Optimized modifier stack ('' @ str_nat (length armature_mods)
                                     @ '' armature mods)'']
                             else []))
      else Some (mods, []))"

text \<open>
  \<open>AVASTAR_OT_performance_optimize_scene.execute\<close>, with its three properties; \<open>None\<close>
  is a run that does not end.
\<close>

definition performance_optimize_scene :: "bool \<Rightarrow> bool \<Rightarrow> bool \<Rightarrow> state \<Rightarrow> outcome option" where
  "performance_optimize_scene clean_weights remove_unused_groups optimize_modifiers st =
     (case active_object st of
        None \<Rightarrow> Some (Inr (CANCELLED, st, [Report ''ERROR'' ''Please select a mesh object'']))
      | Some (nm, obj) \<Rightarrow>
          if ob_type obj \<noteq> ''MESH''
          then Some (Inr (CANCELLED, st, [Report ''ERROR'' ''Please select a mesh object'']))
          else
            (case ob_data obj of
               MeshData me \<Rightarrow>
                 (case clean_weights_step clean_weights (length (ob_vertex_groups obj)) (me_vertices me) of
                    Inl e \<Rightarrow> Some (Inl e)
                  | Inr (vs1, changes1) \<Rightarrow>
                      (case remove_unused_groups_step remove_unused_groups (ob_vertex_groups obj, vs1) of
                         ((vgs2, vs2), changes2) \<Rightarrow>
                           (case optimize_modifiers_step optimize_modifiers (ob_modifiers obj) of
                              None \<Rightarrow> None
                            | Some (mods3, changes3) \<Rightarrow>
                                (let obj' = obj\<lparr>ob_data := MeshData (me\<lparr>me_vertices := vs2\<rparr>),
                                               ob_vertex_groups := vgs2, ob_modifiers := mods3\<rparr>;
                                     st1 = st\<lparr>objects := (objects st)(nm \<mapsto> obj')\<rparr>;
                                     (st2, evs) = clear_performance_caches st1;
                                     changes = changes1 @ changes2 @ changes3 @ [''Cleared performance caches'']
                                 in Some (Inr (FINISHED, st2,
                                      evs @ [if changes \<noteq> []
                                             then Report ''INFO'' (join '' | '' changes)
                                             else Report ''INFO'' ''No optimizations needed''])))))
                  )
             | _ \<Rightarrow> Some (Inl AttributeError)))"

section \<open>Specification functions and example scenes\<close>

text \<open>
  The weight table as the specification words it: for a bone name, the pairs
  \<open>(vertex index, weight)\<close> of the entries whose group index is valid and names a group
  of that name, vertex by vertex in ascending index; a bone name is a key when it is in
  \<open>bone_names\<close> and has at least one such entry.
\<close>

definition group_entries :: "string list \<Rightarrow> string \<Rightarrow> (nat \<times> vertex) list \<Rightarrow> (nat \<times> rat) list" where
  "group_entries vgs b ivs =
     concat (map (\<lambda>(i, v). map (\<lambda>g. (i, ge_weight g))
                    (filter (\<lambda>g. ge_group g < length vgs \<and> vgs ! ge_group g = b) v)) ivs)"

definition weights_spec :: "object \<Rightarrow> mesh \<Rightarrow> string set \<Rightarrow> string \<rightharpoonup> (nat \<times> rat) list" where
  "weights_spec obj me bone_names b =
     (let es = group_entries (ob_vertex_groups obj) b (enumerate 0 (me_vertices me))
      in if b \<in> bone_names \<and> es \<noteq> [] then Some es else None)"

text \<open>The triangle count as the specification words it, over the integers.\<close>

definition triangle_count_spec :: "mesh \<Rightarrow> int" where
  "triangle_count_spec me = sum_list (map (\<lambda>f. int (length f) - 2) (me_polygons me))"

text \<open>The conditions under which the mesh operators cancel.\<close>

definition no_active_mesh :: "state \<Rightarrow> bool" where
  "no_active_mesh st =
     (case active_object st of None \<Rightarrow> True | Some (nm, obj) \<Rightarrow> ob_type obj \<noteq> ''MESH'')"

definition mesh_without_armature :: "state \<Rightarrow> bool" where
  "mesh_without_armature st =
     (case active_object st of
        None \<Rightarrow> False
      | Some (nm, obj) \<Rightarrow> ob_type obj = ''MESH'' \<and> find_armature st (ob_modifiers obj) = None)"

text \<open>
  An armature \<open>Rig\<close> of four bones, a mesh \<open>Body\<close> of a quad and a triangle rigged to
  it, and an unrigged mesh \<open>Cube\<close>.
\<close>

definition rig_bones :: "bone list" where
  "rig_bones =
     [\<lparr>bn_name = ''Hip'', bn_use_deform = True\<rparr>,
      \<lparr>bn_name = ''Tail'', bn_use_deform = True\<rparr>,
      \<lparr>bn_name = ''Control'', bn_use_deform = False\<rparr>,
      \<lparr>bn_name = ''Chest'', bn_use_deform = True\<rparr>]"

definition rig_object :: object where
  "rig_object =
     \<lparr>ob_type = ''ARMATURE'',
      ob_data = ArmatureData \<lparr>ar_bones = rig_bones, ar_edit_bones = None\<rparr>,
      ob_modifiers = [], ob_vertex_groups = [], ob_active_material_index = 0\<rparr>"

definition armature_modifier :: modifier where
  "armature_modifier =
     \<lparr>md_name = ''Armature'', md_type = ''ARMATURE'', md_object = Some ''Rig'',
      md_decimate_type = ''COLLAPSE'', md_ratio = 1, md_use_collapse_triangulate = False\<rparr>"

definition body_mesh :: mesh where
  "body_mesh =
     \<lparr>me_vertices =
        [[\<lparr>ge_group = 0, ge_weight = 1\<rparr>],
         [\<lparr>ge_group = 0, ge_weight = 1 / 2\<rparr>, \<lparr>ge_group = 1, ge_weight = 1 / 2\<rparr>],
         [\<lparr>ge_group = 1, ge_weight = 1\<rparr>],
         [\<lparr>ge_group = 1, ge_weight = 3 / 4\<rparr>, \<lparr>ge_group = 2, ge_weight = 1 / 10000\<rparr>],
         [\<lparr>ge_group = 0, ge_weight = 1\<rparr>]],
      me_polygons = [[0, 1, 2, 3], [2, 3, 4]],
      me_uv_layers = [''UVMap''],
      me_materials = []\<rparr>"

definition body_object :: object where
  "body_object =
     \<lparr>ob_type = ''MESH'', ob_data = MeshData body_mesh,
      ob_modifiers = [armature_modifier],
      ob_vertex_groups = [''Hip'', ''Chest'', ''Control'', ''Spare''],
      ob_active_material_index = 0\<rparr>"

definition cube_mesh :: mesh where
  "cube_mesh =
     \<lparr>me_vertices = replicate 8 [],
      me_polygons = [[0, 1, 2, 3], [4, 5, 6, 7], [0, 1, 5, 4], [1, 2, 6, 5], [2, 3, 7, 6], [3, 0, 4, 7]],
      me_uv_layers = [],
      me_materials = []\<rparr>"

definition cube_object :: object where
  "cube_object =
     \<lparr>ob_type = ''MESH'', ob_data = MeshData cube_mesh, ob_modifiers = [],
      ob_vertex_groups = [], ob_active_material_index = 0\<rparr>"

definition scene_objects :: "string \<rightharpoonup> object" where
  "scene_objects = [''Rig'' \<mapsto> rig_object, ''Body'' \<mapsto> body_object, ''Cube'' \<mapsto> cube_object]"

text \<open>The scene with an active object of the given name, or none.\<close>

definition scene :: "string option \<Rightarrow> state" where
  "scene a =
     \<lparr>objects = scene_objects, active = a, materials = Map.empty, images = Map.empty,
      mesh_cache = Map.empty, bone_cache = Map.empty\<rparr>"

text \<open>Every entry of the two caches before is an entry after.\<close>

definition cache_entries_kept :: "state \<Rightarrow> state \<Rightarrow> bool" where
  "cache_entries_kept st st' =
     (mesh_cache st \<subseteq>\<^sub>m mesh_cache st' \<and> bone_cache st \<subseteq>\<^sub>m bone_cache st')"

text \<open>
  The scene with \<open>Body\<close> active and a cache entry for it taken when the mesh had three
  vertices and one polygon.
\<close>

definition stale_entry :: cache_entry where
  "stale_entry = \<lparr>ce_vertex_count = 3, ce_polygon_count = 1, ce_timestamp = 100\<rparr>"

definition scene_stale :: state where
  "scene_stale = (scene (Some ''Body''))\<lparr>mesh_cache := [''Body'' \<mapsto> stale_entry]\<rparr>"

text \<open>
  A name is referenced when some entry of some vertex has a valid group index and the
  group of that index has this name.
\<close>

definition name_referenced :: "object \<Rightarrow> mesh \<Rightarrow> string \<Rightarrow> bool" where
  "name_referenced obj me n =
     list_ex (list_ex (\<lambda>g. ge_group g < length (ob_vertex_groups obj)
                          \<and> ob_vertex_groups obj ! ge_group g = n)) (me_vertices me)"

text \<open>The bones that \<open>animesh_optimize_bones\<close> is to remove, and the ones it is to keep.\<close>

definition unused_deform_bone :: "object \<Rightarrow> mesh \<Rightarrow> bone \<Rightarrow> bool" where
  "unused_deform_bone obj me b = (bn_use_deform b \<and> \<not> name_referenced obj me (bn_name b))"

definition kept_bones :: "object \<Rightarrow> mesh \<Rightarrow> bone list \<Rightarrow> bone list" where
  "kept_bones obj me bs = filter (\<lambda>b. \<not> unused_deform_bone obj me b) bs"

text \<open>
  The list a weight table holds for a name (empty for a name that is not a key), and
  the well-formedness of a table: its keys are distinct and no key holds an empty list.
\<close>

definition entries_of :: "weight_dict \<Rightarrow> string \<Rightarrow> (nat \<times> rat) list" where
  "entries_of d b = (case map_of d b of None \<Rightarrow> [] | Some ys \<Rightarrow> ys)"

definition dict_ok :: "weight_dict \<Rightarrow> bool" where
  "dict_ok d = (distinct (map fst d) \<and> list_all (\<lambda>p. snd p \<noteq> []) d)"

text \<open>
  Whether an entry counts for a bone name (the two tests of the loop body), and the
  pairs a list of indexed vertices contributes for the name.
\<close>

definition entry_for :: "string list \<Rightarrow> string set \<Rightarrow> string \<Rightarrow> vgroup_elem \<Rightarrow> bool" where
  "entry_for vgs bone_names b g =
     (b \<in> bone_names \<and> ge_group g < length vgs \<and> vgs ! ge_group g = b)"

definition chunk_entries :: "string list \<Rightarrow> string set \<Rightarrow> string \<Rightarrow> (nat \<times> vertex) list \<Rightarrow> (nat \<times> rat) list" where
  "chunk_entries vgs bone_names b ivs =
     concat (map (\<lambda>(i, v). map (\<lambda>g. (i, ge_weight g)) (filter (entry_for vgs bone_names b) v)) ivs)"

text \<open>The triangle count of the mesh data of the object of a given name.\<close>

definition object_triangles :: "state \<Rightarrow> string \<Rightarrow> nat option" where
  "object_triangles st nm =
     (case objects st nm of
        None \<Rightarrow> None
      | Some ob \<Rightarrow> (case ob_data ob of MeshData me \<Rightarrow> Some (triangle_count me) | _ \<Rightarrow> None))"

text \<open>A scene whose active object is a mesh of 32769 triangles, one over the limit.\<close>

definition heavy_mesh :: mesh where
  "heavy_mesh =
     \<lparr>me_vertices = replicate 3 [], me_polygons = replicate 32769 [0, 1, 2],
      me_uv_layers = [''UVMap''], me_materials = []\<rparr>"

definition heavy_object :: object where
  "heavy_object =
     \<lparr>ob_type = ''MESH'', ob_data = MeshData heavy_mesh, ob_modifiers = [],
      ob_vertex_groups = [], ob_active_material_index = 0\<rparr>"

definition scene_heavy :: state where
  "scene_heavy =
     \<lparr>objects = [''Heavy'' \<mapsto> heavy_object], active = Some ''Heavy'', materials = Map.empty,
      images = Map.empty, mesh_cache = Map.empty, bone_cache = Map.empty\<rparr>"

text \<open>
  A scene in which \<open>Body\<close> carries the material \<open>Body_BoM\<close> with the host's default node
  tree, and the same scene after a texture node \<open>BoM_SKIN\<close> has been added to it.
\<close>

definition bom_body_object :: object where
  "bom_body_object =
     body_object\<lparr>ob_data := MeshData (body_mesh\<lparr>me_materials := [Some ''Body_BoM'']\<rparr>)\<rparr>"

definition scene_bom :: state where
  "scene_bom =
     \<lparr>objects = [''Body'' \<mapsto> bom_body_object], active = Some ''Body'',
      materials = [''Body_BoM'' \<mapsto> \<lparr>mt_use_nodes = True, mt_node_tree = Some default_node_tree\<rparr>],
      images = Map.empty, mesh_cache = Map.empty, bone_cache = Map.empty\<rparr>"







text \<open>
  The node tree \<open>bom_setup_material\<close> is to leave: a Principled BSDF with Specular 0
  and Roughness 1, a Material Output, and the one link from BSDF to Surface.
\<close>

definition bom_node_tree :: node_tree where
  "bom_node_tree =
     \<lparr>nt_nodes =
        [\<lparr>nd_name = ''Principled BSDF'', nd_label = [], nd_idname = ''ShaderNodeBsdfPrincipled'',
          nd_location = (0, 0),
          nd_inputs = [(''Base Color'', None), (''Specular'', Some 0), (''Roughness'', Some 1)],
          nd_outputs = [''BSDF''], nd_image = None\<rparr>,
         \<lparr>nd_name = ''Material Output'', nd_label = [], nd_idname = ''ShaderNodeOutputMaterial'',
          nd_location = (300, 0),
          nd_inputs = [(''Surface'', None), (''Volume'', None), (''Displacement'', None)],
          nd_outputs = [], nd_image = None\<rparr>],
      nt_links =
        [\<lparr>lk_from_node = 0, lk_from_socket = ''BSDF'', lk_to_node = 1, lk_to_socket = ''Surface''\<rparr>]\<rparr>"

text \<open>The material slots after the material has been assigned.\<close>

definition assigned_slots :: "string option list \<Rightarrow> string \<Rightarrow> string option list" where
  "assigned_slots slots mat_name =
     (if slots \<noteq> [] then slots[0 := Some mat_name] else slots @ [Some mat_name])"


text \<open>
  A scene whose active object \<open>Crowd\<close> is a mesh of 50001 vertices, with a cache entry
  for that name taken when the mesh had eight vertices and six polygons.
\<close>

definition crowd_mesh :: mesh where
  "crowd_mesh =
     \<lparr>me_vertices = replicate 50001 [], me_polygons = [], me_uv_layers = [], me_materials = []\<rparr>"

definition crowd_object :: object where
  "crowd_object =
     \<lparr>ob_type = ''MESH'', ob_data = MeshData crowd_mesh, ob_modifiers = [],
      ob_vertex_groups = [], ob_active_material_index = 0\<rparr>"

definition scene_crowd :: state where
  "scene_crowd =
     \<lparr>objects = [''Crowd'' \<mapsto> crowd_object], active = Some ''Crowd'', materials = Map.empty,
      images = Map.empty,
      mesh_cache = [''Crowd'' \<mapsto> \<lparr>ce_vertex_count = 8, ce_polygon_count = 6, ce_timestamp = 100\<rparr>],
      bone_cache = Map.empty\<rparr>"

text \<open>
  A scene whose active object \<open>Loose\<close> is a mesh without vertex groups, one vertex of
  which carries an entry of weight zero for group 0.
\<close>

definition loose_object :: object where
  "loose_object =
     \<lparr>ob_type = ''MESH'',
      ob_data = MeshData \<lparr>me_vertices = [[\<lparr>ge_group = 0, ge_weight = 0\<rparr>]], me_polygons = [],
                          me_uv_layers = [], me_materials = []\<rparr>,
      ob_modifiers = [], ob_vertex_groups = [], ob_active_material_index = 0\<rparr>"

definition scene_loose :: state where
  "scene_loose =
     \<lparr>objects = [''Loose'' \<mapsto> loose_object], active = Some ''Loose'', materials = Map.empty,
      images = Map.empty, mesh_cache = Map.empty, bone_cache = Map.empty\<rparr>"

section \<open>Properties\<close>

subsection \<open>Facts about the example scenes\<close>

lemma active_object_scene_None: "active_object (scene None) = None"
  by (simp add: active_object_def scene_def)

lemma active_object_scene_Rig: "active_object (scene (Some ''Rig'')) = Some (''Rig'', rig_object)"
  by (simp add: active_object_def scene_def scene_objects_def)

lemma active_object_scene_Cube: "active_object (scene (Some ''Cube'')) = Some (''Cube'', cube_object)"
  by (simp add: active_object_def scene_def scene_objects_def)

lemma active_object_scene_Body: "active_object (scene (Some ''Body'')) = Some (''Body'', body_object)"
  by (simp add: active_object_def scene_def scene_objects_def)

text \<open>
  Claim C10. Each of the seven operators that need a mesh (animesh_validate,
  animesh_optimize_bones, animesh_reduce_triangles, bom_setup_material,
  bom_add_layer_slot, bom_export_preview, performance_optimize_scene) returns
  \<open>{'CANCELLED'}\<close> with the error report and the state it was given when there is no
  active object or the active object is not of type MESH; animesh_validate and
  animesh_optimize_bones do the same for an active mesh none of whose armature modifiers
  has a target object.
\<close>

theorem mesh_operators_cancel:
  "(no_active_mesh st \<longrightarrow>
      animesh_validate st = Inr (CANCELLED, st, [Report ''ERROR'' ''Please select a mesh object''])
    \<and> animesh_optimize_bones remove_unused st
        = Inr (CANCELLED, st, [Report ''ERROR'' ''Please select a mesh object''])
    \<and> animesh_reduce_triangles ratio st
        = Inr (CANCELLED, st, [Report ''ERROR'' ''Please select a mesh object''])
    \<and> bom_setup_material st = Inr (CANCELLED, st, [Report ''ERROR'' ''Please select a mesh object''])
    \<and> bom_add_layer_slot lt st = Inr (CANCELLED, st, [Report ''ERROR'' ''Please select a mesh object''])
    \<and> bom_export_preview st = Inr (CANCELLED, st, [Report ''ERROR'' ''Please select a mesh object''])
    \<and> performance_optimize_scene clean_weights remove_unused_groups optimize_modifiers st
        = Some (Inr (CANCELLED, st, [Report ''ERROR'' ''Please select a mesh object''])))
   \<and> (mesh_without_armature st \<longrightarrow>
      animesh_validate st = Inr (CANCELLED, st, [Report ''ERROR'' ''Mesh has no armature modifier''])
    \<and> animesh_optimize_bones remove_unused st
        = Inr (CANCELLED, st, [Report ''ERROR'' ''Mesh has no armature modifier'']))"
proof (intro conjI impI)
  assume h: "no_active_mesh st"
  show "animesh_validate st = Inr (CANCELLED, st, [Report ''ERROR'' ''Please select a mesh object''])"
    using h by (auto simp: no_active_mesh_def animesh_validate_def split: option.splits)
  show "animesh_optimize_bones remove_unused st
        = Inr (CANCELLED, st, [Report ''ERROR'' ''Please select a mesh object''])"
    using h by (auto simp: no_active_mesh_def animesh_optimize_bones_def split: option.splits)
  show "animesh_reduce_triangles ratio st
        = Inr (CANCELLED, st, [Report ''ERROR'' ''Please select a mesh object''])"
    using h by (auto simp: no_active_mesh_def animesh_reduce_triangles_def split: option.splits)
  show "bom_setup_material st = Inr (CANCELLED, st, [Report ''ERROR'' ''Please select a mesh object''])"
    using h by (auto simp: no_active_mesh_def bom_setup_material_def split: option.splits)
  show "bom_add_layer_slot lt st = Inr (CANCELLED, st, [Report ''ERROR'' ''Please select a mesh object''])"
    using h by (auto simp: no_active_mesh_def bom_add_layer_slot_def split: option.splits)
  show "bom_export_preview st = Inr (CANCELLED, st, [Report ''ERROR'' ''Please select a mesh object''])"
    using h by (auto simp: no_active_mesh_def bom_export_preview_def split: option.splits)
  show "performance_optimize_scene clean_weights remove_unused_groups optimize_modifiers st
        = Some (Inr (CANCELLED, st, [Report ''ERROR'' ''Please select a mesh object'']))"
    using h by (auto simp: no_active_mesh_def performance_optimize_scene_def split: option.splits)
next
  assume h: "mesh_without_armature st"
  show "animesh_validate st = Inr (CANCELLED, st, [Report ''ERROR'' ''Mesh has no armature modifier''])"
    using h by (auto simp: mesh_without_armature_def animesh_validate_def split: option.splits)
  show "animesh_optimize_bones remove_unused st
        = Inr (CANCELLED, st, [Report ''ERROR'' ''Mesh has no armature modifier''])"
    using h by (auto simp: mesh_without_armature_def animesh_optimize_bones_def split: option.splits)
qed

lemma no_active_mesh_scene_None: "no_active_mesh (scene None)"
  by (simp add: no_active_mesh_def active_object_scene_None)

lemma no_active_mesh_scene_Rig: "no_active_mesh (scene (Some ''Rig''))"
  by (simp add: no_active_mesh_def active_object_scene_Rig rig_object_def)

lemma mesh_without_armature_scene_Cube: "mesh_without_armature (scene (Some ''Cube''))"
  by (simp add: mesh_without_armature_def active_object_scene_Cube cube_object_def)

theorem mesh_operators_cancel_witness:
  "no_active_mesh (scene None)
   \<and> animesh_validate (scene None)
       = Inr (CANCELLED, scene None, [Report ''ERROR'' ''Please select a mesh object''])
   \<and> bom_add_layer_slot TATTOO (scene None)
       = Inr (CANCELLED, scene None, [Report ''ERROR'' ''Please select a mesh object''])
   \<and> no_active_mesh (scene (Some ''Rig''))
   \<and> animesh_reduce_triangles (1 / 2) (scene (Some ''Rig''))
       = Inr (CANCELLED, scene (Some ''Rig''), [Report ''ERROR'' ''Please select a mesh object''])
   \<and> performance_optimize_scene True True False (scene (Some ''Rig''))
       = Some (Inr (CANCELLED, scene (Some ''Rig''), [Report ''ERROR'' ''Please select a mesh object'']))
   \<and> mesh_without_armature (scene (Some ''Cube''))
   \<and> animesh_optimize_bones True (scene (Some ''Cube''))
       = Inr (CANCELLED, scene (Some ''Cube''), [Report ''ERROR'' ''Mesh has no armature modifier''])"
  using mesh_operators_cancel [of "scene None" True "1 / 2" TATTOO True True False]
        mesh_operators_cancel [of "scene (Some ''Rig'')" True "1 / 2" TATTOO True True False]
        mesh_operators_cancel [of "scene (Some ''Cube'')" True "1 / 2" TATTOO True True False]
        no_active_mesh_scene_None no_active_mesh_scene_Rig mesh_without_armature_scene_Cube
  by blast

subsection \<open>The caches\<close>

lemma caches_same_kept:
  "mesh_cache st' = mesh_cache st \<Longrightarrow> bone_cache st' = bone_cache st \<Longrightarrow> cache_entries_kept st st'"
  by (simp add: cache_entries_kept_def)

lemma get_cached_mesh_data_body_kept:
  "get_cached_mesh_data_body now nm obj st = Inr (e, st') \<Longrightarrow> cache_entries_kept st st'"
  by (auto simp: get_cached_mesh_data_body_def cache_entries_kept_def map_le_def Let_def
           split: option.splits obdata.splits)

lemma get_cached_mesh_data_kept:
  "get_cached_mesh_data clock nm obj st = Inr (e, st', evs) \<Longrightarrow> cache_entries_kept st st'"
  by (auto simp: get_cached_mesh_data_def split: prod.splits sum.splits
           dest: get_cached_mesh_data_body_kept)

lemma performance_profile_kept:
  "performance_profile clock st = Inr (r, st', evs) \<Longrightarrow> cache_entries_kept st st'"
  by (auto simp: performance_profile_def caches_same_kept
           split: option.splits prod.splits sum.splits if_splits
           dest: get_cached_mesh_data_kept)

lemma mode_set_caches:
  "mode_set mode st = Inr st' \<Longrightarrow> mesh_cache st' = mesh_cache st \<and> bone_cache st' = bone_cache st"
  by (auto simp: mode_set_def split: option.splits prod.splits obdata.splits if_splits)

lemma remove_unused_bones_caches:
  "remove_unused_bones nm obj me an st = Inr st'
   \<Longrightarrow> mesh_cache st' = mesh_cache st \<and> bone_cache st' = bone_cache st"
  by (auto simp: remove_unused_bones_def Let_def
           split: option.splits prod.splits obdata.splits sum.splits
           dest!: mode_set_caches)

lemma animesh_validate_kept:
  "animesh_validate st = Inr (r, st', evs) \<Longrightarrow> cache_entries_kept st st'"
  by (auto simp: animesh_validate_def caches_same_kept Let_def
           split: option.splits prod.splits obdata.splits if_splits)

lemma animesh_optimize_bones_kept:
  "animesh_optimize_bones remove_unused st = Inr (r, st', evs) \<Longrightarrow> cache_entries_kept st st'"
  by (auto simp: animesh_optimize_bones_def caches_same_kept Let_def
           split: option.splits prod.splits obdata.splits sum.splits if_splits
           dest!: remove_unused_bones_caches)

lemma animesh_reduce_triangles_kept:
  "animesh_reduce_triangles ratio st = Inr (r, st', evs) \<Longrightarrow> cache_entries_kept st st'"
  by (auto simp: animesh_reduce_triangles_def caches_same_kept Let_def
           split: option.splits prod.splits if_splits)

lemma bom_setup_material_kept:
  "bom_setup_material st = Inr (r, st', evs) \<Longrightarrow> cache_entries_kept st st'"
  by (auto simp: bom_setup_material_def caches_same_kept Let_def
           split: option.splits prod.splits obdata.splits sum.splits if_splits)

lemma bom_add_layer_slot_kept:
  "bom_add_layer_slot lt st = Inr (r, st', evs) \<Longrightarrow> cache_entries_kept st st'"
  by (auto simp: bom_add_layer_slot_def caches_same_kept Let_def
           split: option.splits prod.splits sum.splits if_splits)

lemma bom_export_preview_kept:
  "bom_export_preview st = Inr (r, st', evs) \<Longrightarrow> cache_entries_kept st st'"
  by (auto simp: bom_export_preview_def caches_same_kept
           split: option.splits prod.splits if_splits)

text \<open>
  Claim C4. An entry of the mesh cache is never invalidated: for a name already in the
  cache, \<open>get_cached_mesh_data\<close> returns the stored entry and leaves the state as it
  is, whatever the vertices and polygons of the object passed now are; every entry of the
  mesh cache and of the bone cache survives \<open>get_cached_mesh_data\<close>, the profile
  operator and the operators of animesh.py and bom.py; \<open>clear_performance_caches\<close>
  empties both caches.
\<close>

theorem mesh_cache_only_cleared_manually:
  "(mesh_cache st nm = Some entry \<longrightarrow>
      get_cached_mesh_data (t0, t1, t2) nm obj st
        = Inr (entry, st, timed_operation ''get_cached_mesh_data'' t0 t2))
   \<and> (get_cached_mesh_data clock nm obj st = Inr (e, st1, evs1) \<longrightarrow> cache_entries_kept st st1)
   \<and> (performance_profile clock st = Inr (r2, st2, evs2) \<longrightarrow> cache_entries_kept st st2)
   \<and> (animesh_validate st = Inr (r3, st3, evs3) \<longrightarrow> cache_entries_kept st st3)
   \<and> (animesh_optimize_bones remove_unused st = Inr (r4, st4, evs4) \<longrightarrow> cache_entries_kept st st4)
   \<and> (animesh_reduce_triangles ratio st = Inr (r5, st5, evs5) \<longrightarrow> cache_entries_kept st st5)
   \<and> (bom_setup_material st = Inr (r6, st6, evs6) \<longrightarrow> cache_entries_kept st st6)
   \<and> (bom_add_layer_slot lt st = Inr (r7, st7, evs7) \<longrightarrow> cache_entries_kept st st7)
   \<and> (bom_export_preview st = Inr (r8, st8, evs8) \<longrightarrow> cache_entries_kept st st8)
   \<and> mesh_cache (fst (clear_performance_caches st)) = Map.empty
   \<and> bone_cache (fst (clear_performance_caches st)) = Map.empty"
proof (intro conjI impI)
  assume "mesh_cache st nm = Some entry"
  then show "get_cached_mesh_data (t0, t1, t2) nm obj st
        = Inr (entry, st, timed_operation ''get_cached_mesh_data'' t0 t2)"
    by (simp add: get_cached_mesh_data_def get_cached_mesh_data_body_def)
next
  show "mesh_cache (fst (clear_performance_caches st)) = Map.empty"
    by (simp add: clear_performance_caches_def)
  show "bone_cache (fst (clear_performance_caches st)) = Map.empty"
    by (simp add: clear_performance_caches_def)
qed (erule get_cached_mesh_data_kept performance_profile_kept animesh_validate_kept
      animesh_optimize_bones_kept animesh_reduce_triangles_kept bom_setup_material_kept
      bom_add_layer_slot_kept bom_export_preview_kept)+

theorem mesh_cache_only_cleared_manually_witness:
  "mesh_cache scene_stale ''Body'' = Some stale_entry
   \<and> ce_vertex_count stale_entry \<noteq> length (me_vertices body_mesh)
   \<and> get_cached_mesh_data (0, 1, 0) ''Body'' body_object scene_stale = Inr (stale_entry, scene_stale, [])
   \<and> cache_entries_kept scene_stale scene_stale"
proof -
  have h: "mesh_cache scene_stale ''Body'' = Some stale_entry"
    by (simp add: scene_stale_def)
  have n: "ce_vertex_count stale_entry \<noteq> length (me_vertices body_mesh)"
    by (simp add: stale_entry_def body_mesh_def)
  note t = mesh_cache_only_cleared_manually [where st = scene_stale and nm = "''Body''"
      and entry = stale_entry and ?t0.0 = 0 and ?t1.0 = 1 and ?t2.0 = 0 and obj = body_object
      and clock = "(0, 1, 0)" and e = stale_entry and ?st1.0 = scene_stale and ?evs1.0 = "[]"]
  have g: "get_cached_mesh_data (0, 1, 0) ''Body'' body_object scene_stale
             = Inr (stale_entry, scene_stale, [])"
    using t h by (simp add: timed_operation_def)
  have k: "cache_entries_kept scene_stale scene_stale"
    using t g by simp
  show ?thesis using h n g k by blast
qed

subsection \<open>Formatted numbers\<close>

lemma digit_char_not_mark: "d < 10 \<Longrightarrow> digit_char d \<noteq> CHR 0x9C"
proof -
  assume "d < 10"
  then have "digit_char d \<in> set ''0123456789''"
    unfolding digit_char_def by (intro nth_mem) simp
  then show ?thesis by auto
qed

lemma mark_not_in_str_nat: "CHR 0x9C \<notin> set (str_nat n)"
proof (induction n rule: str_nat.induct)
  case (1 n)
  show ?case
  proof (cases "n < 10")
    case True
    then show ?thesis
      using digit_char_not_mark [of n] by (subst str_nat.simps) auto
  next
    case False
    then show ?thesis
      using 1 digit_char_not_mark [of "n mod 10"] by (subst str_nat.simps) auto
  qed
qed

lemma mark_not_in_pad3: "CHR 0x9C \<notin> set (pad3 k)"
  using digit_char_not_mark [of "k div 100 mod 10"] digit_char_not_mark [of "k div 10 mod 10"]
    digit_char_not_mark [of "k mod 10"]
  by (auto simp: pad3_def)

lemma mark_not_in_str_nat_commas: "CHR 0x9C \<notin> set (str_nat_commas n)"
proof (induction n rule: str_nat_commas.induct)
  case (1 n)
  show ?case
  proof (cases "n < 1000")
    case True
    then show ?thesis
      using mark_not_in_str_nat [of n] by (subst str_nat_commas.simps) simp
  next
    case False
    then show ?thesis
      using 1 mark_not_in_pad3 [of "n mod 1000"] by (subst str_nat_commas.simps) simp
  qed
qed

subsection \<open>The validation report\<close>

lemma sublist_check_mark_elem: "sublist check_mark s \<Longrightarrow> CHR 0x9C \<in> set s"
  using set_mono_sublist [of check_mark s] by (auto simp: check_mark_def)

lemma check_mark_prefix: "sublist check_mark (check_mark @ s)"
  by (rule sublist_append_rightI)

lemma bones_line_marked:
  "sublist check_mark (validate_issues b t u ! 0) \<longleftrightarrow> b \<le> ANIMESH_MAX_BONES"
proof (cases "b \<le> ANIMESH_MAX_BONES")
  case True
  then show ?thesis by (simp add: validate_issues_def check_mark_prefix)
next
  case False
  have "CHR 0x9C \<notin> set (validate_issues b t u ! 0)"
    using False mark_not_in_str_nat by (simp add: validate_issues_def cross_mark_def)
  then show ?thesis using False sublist_check_mark_elem by blast
qed

lemma triangles_line_marked:
  "sublist check_mark (validate_issues b t u ! Suc 0) \<longleftrightarrow> t \<le> ANIMESH_MAX_TRIANGLES"
proof (cases "t \<le> ANIMESH_MAX_TRIANGLES")
  case True
  then show ?thesis by (simp add: validate_issues_def check_mark_prefix)
next
  case False
  have "CHR 0x9C \<notin> set (validate_issues b t u ! Suc 0)"
    using False mark_not_in_str_nat_commas by (simp add: validate_issues_def cross_mark_def)
  then show ?thesis using False sublist_check_mark_elem by blast
qed

lemma weights_line_marked:
  "sublist check_mark (validate_issues b t u ! 2) \<longleftrightarrow> u = []"
proof (cases "u = []")
  case True
  then show ?thesis by (simp add: validate_issues_def check_mark_prefix)
next
  case False
  have "CHR 0x9C \<notin> set (validate_issues b t u ! 2)"
    using False mark_not_in_str_nat by (simp add: validate_issues_def cross_mark_def)
  then show ?thesis using False sublist_check_mark_elem by blast
qed

lemma validate_issues_three:
  "validate_issues b t u = [validate_issues b t u ! 0, validate_issues b t u ! Suc 0, validate_issues b t u ! 2]"
  by (simp add: validate_issues_def)

lemma all_lines_marked:
  "list_all (sublist check_mark) (validate_issues b t u)
   \<longleftrightarrow> b \<le> ANIMESH_MAX_BONES \<and> t \<le> ANIMESH_MAX_TRIANGLES \<and> u = []"
proof -
  have "list_all (sublist check_mark) (validate_issues b t u)
        \<longleftrightarrow> sublist check_mark (validate_issues b t u ! 0)
          \<and> sublist check_mark (validate_issues b t u ! Suc 0)
          \<and> sublist check_mark (validate_issues b t u ! 2)"
    by (subst validate_issues_three) simp
  then show ?thesis
    by (simp add: bones_line_marked triangles_line_marked weights_line_marked)
qed

lemma unweighted_filter_empty:
  "filter (\<lambda>(i, v). v = []) (enumerate n vs) = [] \<longleftrightarrow> list_all (\<lambda>v. v \<noteq> []) vs"
  by (induction vs arbitrary: n) simp_all

lemma unweighted_vertices_empty:
  "unweighted_vertices me = [] \<longleftrightarrow> list_all (\<lambda>v. v \<noteq> []) (me_vertices me)"
  by (simp add: unweighted_vertices_def unweighted_filter_empty)

lemma triangle_count_spec_eq:
  "list_all (\<lambda>f. 2 \<le> length f) (me_polygons me) \<Longrightarrow> int (triangle_count me) = triangle_count_spec me"
proof -
  have "list_all (\<lambda>f. 2 \<le> length f) fs
        \<Longrightarrow> int (sum_list (map (\<lambda>f. range_len (int (length f) - 2)) fs))
            = sum_list (map (\<lambda>f. int (length f) - 2) fs)" for fs :: "nat list list"
    by (induction fs) (auto simp: range_len_def)
  then show "list_all (\<lambda>f. 2 \<le> length f) (me_polygons me) \<Longrightarrow> int (triangle_count me) = triangle_count_spec me"
    by (simp add: triangle_count_def triangle_count_spec_def)
qed

text \<open>
Claim C1. For an active mesh object with an armature modifier that has a target
  object, \<open>animesh_validate\<close> returns \<open>{'FINISHED'}\<close> and leaves the state as it is,
  and it reports "Mesh is Animesh compatible!" exactly when the armature has at most 110
  deform bones, the sum over the faces of the number of face vertices minus two is at
  most 32768, and every vertex has at least one vertex group entry. A face of the host
  has at least three vertices; two suffice for the sum to be the count the operator takes.
\<close>

theorem animesh_validate_compatible_iff:
  assumes "active_object st = Some (nm, obj)" and "ob_type obj = ''MESH''"
    and "ob_data obj = MeshData me"
    and "find_armature st (ob_modifiers obj) = Some (an, arm)"
    and "ob_data arm = ArmatureData ad"
    and "list_all (\<lambda>f. 2 \<le> length f) (me_polygons me)"
  shows "\<exists>evs. animesh_validate st = Inr (FINISHED, st, evs)
     \<and> (Report ''INFO'' ''Mesh is Animesh compatible!'' \<in> set evs
        \<longleftrightarrow> deform_count (ar_bones ad) \<le> 110
          \<and> triangle_count_spec me \<le> 32768
          \<and> list_all (\<lambda>v. v \<noteq> []) (me_vertices me))"
proof -
  define issues where
    "issues = validate_issues (deform_count (ar_bones ad)) (triangle_count me) (unweighted_vertices me)"
  define evs where
    "evs = [Report ''INFO'' (''Animesh Validation:'' @ newline @ join newline issues),
            Log ''INFO'' ''Animesh Validation Report:'']
           @ map (\<lambda>issue. Log ''INFO'' (''  '' @ issue)) issues
           @ [if list_all (sublist check_mark) issues
              then Report ''INFO'' ''Mesh is Animesh compatible!''
              else Report ''WARNING'' ''Mesh has Animesh compatibility issues'']"
  have run: "animesh_validate st = Inr (FINISHED, st, evs)"
    using assms(1-5) by (simp add: animesh_validate_def Let_def evs_def issues_def)
  have "Report ''INFO'' ''Mesh is Animesh compatible!'' \<in> set evs
        \<longleftrightarrow> list_all (sublist check_mark) issues"
    by (auto simp: evs_def)
  also have "\<dots> \<longleftrightarrow> deform_count (ar_bones ad) \<le> ANIMESH_MAX_BONES
      \<and> triangle_count me \<le> ANIMESH_MAX_TRIANGLES \<and> unweighted_vertices me = []"
    by (simp add: issues_def all_lines_marked)
  also have "\<dots> \<longleftrightarrow> deform_count (ar_bones ad) \<le> 110
          \<and> triangle_count_spec me \<le> 32768
          \<and> list_all (\<lambda>v. v \<noteq> []) (me_vertices me)"
  proof -
    have "triangle_count me \<le> 32768 \<longleftrightarrow> triangle_count_spec me \<le> 32768"
      using triangle_count_spec_eq [OF assms(6)] by linarith
    then show ?thesis
      by (simp add: ANIMESH_MAX_BONES_def ANIMESH_MAX_TRIANGLES_def unweighted_vertices_empty)
  qed
  finally show ?thesis using run by blast
qed

lemma find_armature_body:
  "find_armature (scene (Some ''Body'')) (ob_modifiers body_object) = Some (''Rig'', rig_object)"
  by (simp add: body_object_def armature_modifier_def mod_object_def scene_def scene_objects_def)

theorem animesh_validate_compatible_iff_witness:
  "active_object (scene (Some ''Body'')) = Some (''Body'', body_object)
   \<and> ob_type body_object = ''MESH''
   \<and> find_armature (scene (Some ''Body'')) (ob_modifiers body_object) = Some (''Rig'', rig_object)
   \<and> list_all (\<lambda>f. 2 \<le> length f) (me_polygons body_mesh)
   \<and> deform_count rig_bones = 3 \<and> triangle_count_spec body_mesh = 3
   \<and> (\<exists>evs. animesh_validate (scene (Some ''Body'')) = Inr (FINISHED, scene (Some ''Body''), evs)
          \<and> Report ''INFO'' ''Mesh is Animesh compatible!'' \<in> set evs)"
proof -
  have h2: "ob_type body_object = ''MESH''" and h3: "ob_data body_object = MeshData body_mesh"
    by (simp_all add: body_object_def)
  have h5: "ob_data rig_object = ArmatureData \<lparr>ar_bones = rig_bones, ar_edit_bones = None\<rparr>"
    by (simp add: rig_object_def)
  have h6: "list_all (\<lambda>f. 2 \<le> length f) (me_polygons body_mesh)"
    by (simp add: body_mesh_def)
  have b: "deform_count rig_bones = 3"
    by (simp add: deform_count_def rig_bones_def)
  have t: "triangle_count_spec body_mesh = 3"
    by (simp add: triangle_count_spec_def body_mesh_def)
  have v: "list_all (\<lambda>v. v \<noteq> []) (me_vertices body_mesh)"
    by (simp add: body_mesh_def)
  show ?thesis
    using animesh_validate_compatible_iff [OF active_object_scene_Body h2 h3 find_armature_body h5 h6]
      active_object_scene_Body h2 find_armature_body h6 b t v
    by auto
qed

subsection \<open>Removing unused bones\<close>

lemma used_bones_referenced: "n \<in> set (used_bones obj me) \<longleftrightarrow> name_referenced obj me n"
  by (auto simp: used_bones_def name_referenced_def list_ex_iff)

lemma remove_unused_loop_filter:
  "list_all (\<lambda>b. \<not> (bn_use_deform b \<and> bn_name b \<notin> used)) pre
   \<Longrightarrow> remove_unused_loop used xs (pre @ xs) n
       = (pre @ filter (\<lambda>b. \<not> (bn_use_deform b \<and> bn_name b \<notin> used)) xs,
          n + length (filter (\<lambda>b. bn_use_deform b \<and> bn_name b \<notin> used) xs))"
proof (induction xs arbitrary: pre n)
  case Nil
  then show ?case by simp
next
  case (Cons b bs)
  show ?case
  proof (cases "bn_use_deform b \<and> bn_name b \<notin> used")
    case True
    with Cons.prems have "b \<notin> set pre"
      by (auto simp: list_all_iff)
    then have "remove1 b (pre @ b # bs) = pre @ bs"
      by (simp add: remove1_append)
    with True Cons.IH [OF Cons.prems] show ?thesis by simp
  next
    case False
    with Cons.prems have "list_all (\<lambda>b. \<not> (bn_use_deform b \<and> bn_name b \<notin> used)) (pre @ [b])"
      by simp
    from Cons.IH [OF this]
    have "remove_unused_loop used bs (pre @ b # bs) n
       = (pre @ b # filter (\<lambda>b. \<not> (bn_use_deform b \<and> bn_name b \<notin> used)) bs,
          n + length (filter (\<lambda>b. bn_use_deform b \<and> bn_name b \<notin> used) bs))"
      by simp
    moreover have "remove_unused_loop used (b # bs) (pre @ b # bs) n
       = remove_unused_loop used bs (pre @ b # bs) n"
      using False by auto
    moreover have "filter (\<lambda>b. \<not> (bn_use_deform b \<and> bn_name b \<notin> used)) (b # bs)
       = b # filter (\<lambda>b. \<not> (bn_use_deform b \<and> bn_name b \<notin> used)) bs"
      using False by auto
    moreover have "filter (\<lambda>b. bn_use_deform b \<and> bn_name b \<notin> used) (b # bs)
       = filter (\<lambda>b. bn_use_deform b \<and> bn_name b \<notin> used) bs"
      using False by auto
    ultimately show ?thesis by (simp only:)
  qed
qed

lemma remove_unused_loop_all:
  "remove_unused_loop used bs bs 0
     = (filter (\<lambda>b. \<not> (bn_use_deform b \<and> bn_name b \<notin> used)) bs,
        length (filter (\<lambda>b. bn_use_deform b \<and> bn_name b \<notin> used) bs))"
  using remove_unused_loop_filter [of used "[]" bs 0] by simp

lemma remove_unused_loop_kept:
  "remove_unused_loop (set (used_bones obj me)) bs bs 0
     = (kept_bones obj me bs, length (filter (unused_deform_bone obj me) bs))"
proof -
  have "unused_deform_bone obj me = (\<lambda>b. bn_use_deform b \<and> bn_name b \<notin> set (used_bones obj me))"
    by (rule ext) (simp add: unused_deform_bone_def used_bones_referenced)
  then show ?thesis
    by (simp add: remove_unused_loop_all kept_bones_def)
qed

lemma find_armature_objects:
  "find_armature st ms = Some (an, arm) \<Longrightarrow> objects st an = Some arm"
  by (induction ms) (auto simp: mod_object_def split: if_splits option.splits)

lemma remove_unused_bones_result:
  assumes "active st = Some nm" and "objects st an = Some arm"
    and "ob_data arm = ArmatureData ad" and "ar_edit_bones ad = None"
  shows "remove_unused_bones nm obj me an st
         = Inr (st\<lparr>objects := (objects st)(an \<mapsto>
                  arm\<lparr>ob_data := ArmatureData (ad\<lparr>ar_bones := kept_bones obj me (ar_bones ad)\<rparr>)\<rparr>)\<rparr>)"
proof -
  have a: "st\<lparr>objects := f, active := Some nm\<rparr> = st\<lparr>objects := f\<rparr>" for f
    using assms(1) by (cases st) simp
  have b: "ad\<lparr>ar_bones := k, ar_edit_bones := None\<rparr> = ad\<lparr>ar_bones := k\<rparr>" for k
    using assms(4) by (cases ad) simp
  show ?thesis
    using assms
    by (simp add: remove_unused_bones_def mode_set_def active_object_def Let_def
          remove_unused_loop_kept a b)
qed

lemma kept_bones_non_deform:
  "filter (\<lambda>b. \<not> bn_use_deform b) (kept_bones obj me bs) = filter (\<lambda>b. \<not> bn_use_deform b) bs"
  by (induction bs) (auto simp: kept_bones_def unused_deform_bone_def)

lemma kept_bones_deform_count:
  "deform_count (kept_bones obj me bs) + length (filter (unused_deform_bone obj me) bs)
     = deform_count bs"
  by (induction bs) (auto simp: kept_bones_def unused_deform_bone_def deform_count_def)

text \<open>
Claim C7. For an active mesh object with an armature modifier that has a target
  object (the armature in object mode), \<open>animesh_optimize_bones\<close> with \<open>remove_unused\<close>
  set returns \<open>{'FINISHED'}\<close> and leaves of the armature's bones exactly those that
  are not unused deform bones, a deform bone being unused when its name is not the name
  of a vertex group referenced with a valid index by some vertex; the bones without
  \<open>use_deform\<close> all stay; and the count in the report, the deform bones before minus
  the deform bones after, is the number of bones removed.
\<close>

theorem animesh_optimize_bones_removes_unused:
  assumes "active_object st = Some (nm, obj)" and "ob_type obj = ''MESH''"
    and "ob_data obj = MeshData me"
    and "find_armature st (ob_modifiers obj) = Some (an, arm)"
    and "ob_data arm = ArmatureData ad" and "ar_edit_bones ad = None"
  shows "animesh_optimize_bones True st
         = Inr (FINISHED,
             st\<lparr>objects := (objects st)(an \<mapsto>
                  arm\<lparr>ob_data := ArmatureData (ad\<lparr>ar_bones := kept_bones obj me (ar_bones ad)\<rparr>)\<rparr>)\<rparr>,
             [Report ''INFO'' (''Removed ''
                @ str_int (int (deform_count (ar_bones ad))
                           - int (deform_count (kept_bones obj me (ar_bones ad))))
                @ '' unused bones ('' @ str_nat (deform_count (kept_bones obj me (ar_bones ad)))
                @ '' remaining)'')])
       \<and> kept_bones obj me (ar_bones ad) = filter (\<lambda>b. \<not> unused_deform_bone obj me b) (ar_bones ad)
       \<and> filter (\<lambda>b. \<not> bn_use_deform b) (kept_bones obj me (ar_bones ad))
           = filter (\<lambda>b. \<not> bn_use_deform b) (ar_bones ad)
       \<and> int (deform_count (ar_bones ad)) - int (deform_count (kept_bones obj me (ar_bones ad)))
           = int (length (filter (unused_deform_bone obj me) (ar_bones ad)))"
proof -
  have act: "active st = Some nm"
    using assms(1) by (auto simp: active_object_def split: option.splits)
  have arm: "objects st an = Some arm"
    using assms(4) by (rule find_armature_objects)
  have run: "remove_unused_bones nm obj me an st
         = Inr (st\<lparr>objects := (objects st)(an \<mapsto>
                  arm\<lparr>ob_data := ArmatureData (ad\<lparr>ar_bones := kept_bones obj me (ar_bones ad)\<rparr>)\<rparr>)\<rparr>)"
    using act arm assms(5,6) by (rule remove_unused_bones_result)
  have op: "animesh_optimize_bones True st
         = Inr (FINISHED,
             st\<lparr>objects := (objects st)(an \<mapsto>
                  arm\<lparr>ob_data := ArmatureData (ad\<lparr>ar_bones := kept_bones obj me (ar_bones ad)\<rparr>)\<rparr>)\<rparr>,
             [Report ''INFO'' (''Removed ''
                @ str_int (int (deform_count (ar_bones ad))
                           - int (deform_count (kept_bones obj me (ar_bones ad))))
                @ '' unused bones ('' @ str_nat (deform_count (kept_bones obj me (ar_bones ad)))
                @ '' remaining)'')])"
    using assms(1-5) by (simp add: animesh_optimize_bones_def bones_of_def run Let_def)
  have cnt: "int (deform_count (ar_bones ad)) - int (deform_count (kept_bones obj me (ar_bones ad)))
           = int (length (filter (unused_deform_bone obj me) (ar_bones ad)))"
    using kept_bones_deform_count [of obj me "ar_bones ad"] by linarith
  show ?thesis
    using op cnt kept_bones_non_deform [of obj me "ar_bones ad"]
    by (simp add: kept_bones_def)
qed

lemma kept_bones_rig:
  "kept_bones body_object body_mesh rig_bones
     = [\<lparr>bn_name = ''Hip'', bn_use_deform = True\<rparr>,
        \<lparr>bn_name = ''Control'', bn_use_deform = False\<rparr>,
        \<lparr>bn_name = ''Chest'', bn_use_deform = True\<rparr>]"
  by (simp add: kept_bones_def unused_deform_bone_def name_referenced_def rig_bones_def
        body_object_def body_mesh_def)

theorem animesh_optimize_bones_removes_unused_witness:
  "active_object (scene (Some ''Body'')) = Some (''Body'', body_object)
   \<and> find_armature (scene (Some ''Body'')) (ob_modifiers body_object) = Some (''Rig'', rig_object)
   \<and> animesh_optimize_bones True (scene (Some ''Body''))
       = Inr (FINISHED,
           (scene (Some ''Body''))\<lparr>objects := (objects (scene (Some ''Body'')))(''Rig'' \<mapsto>
              rig_object\<lparr>ob_data := ArmatureData
                \<lparr>ar_bones = [\<lparr>bn_name = ''Hip'', bn_use_deform = True\<rparr>,
                              \<lparr>bn_name = ''Control'', bn_use_deform = False\<rparr>,
                              \<lparr>bn_name = ''Chest'', bn_use_deform = True\<rparr>],
                 ar_edit_bones = None\<rparr>\<rparr>)\<rparr>,
           [Report ''INFO'' ''Removed 1 unused bones (2 remaining)''])"
proof -
  have h2: "ob_type body_object = ''MESH''" and h3: "ob_data body_object = MeshData body_mesh"
    by (simp_all add: body_object_def)
  have h5: "ob_data rig_object = ArmatureData \<lparr>ar_bones = rig_bones, ar_edit_bones = None\<rparr>"
    by (simp add: rig_object_def)
  have h6: "ar_edit_bones \<lparr>ar_bones = rig_bones, ar_edit_bones = None\<rparr> = None"
    by simp
  have d: "deform_count rig_bones = 3"
    by (simp add: deform_count_def rig_bones_def)
  have d2: "deform_count [\<lparr>bn_name = ''Hip'', bn_use_deform = True\<rparr>,
                              \<lparr>bn_name = ''Control'', bn_use_deform = False\<rparr>,
                              \<lparr>bn_name = ''Chest'', bn_use_deform = True\<rparr>] = 2"
    by (simp add: deform_count_def)
  have s1: "str_int 1 = ''1''" and s2: "str_nat 2 = ''2''"
    by (simp_all add: str_int_def str_nat.simps digit_char_def)
  show ?thesis
    using animesh_optimize_bones_removes_unused
            [OF active_object_scene_Body h2 h3 find_armature_body h5 h6]
      active_object_scene_Body find_armature_body
    by (simp add: kept_bones_rig d d2 s1 s2)
qed

subsection \<open>Weight tables\<close>

lemma entries_of_empty: "entries_of [] b = []"
  by (simp add: entries_of_def)

lemma dict_ok_empty: "dict_ok []"
  by (simp add: dict_ok_def)

lemma entries_of_dict_extend:
  "entries_of (dict_extend k xs d) b = entries_of d b @ (if b = k then xs else [])"
  by (simp add: entries_of_def dict_extend_def update_conv')

lemma list_all_update:
  "P (k, v) \<Longrightarrow> list_all P d \<Longrightarrow> list_all P (AList.update k v d)"
  by (induction d) auto

lemma dict_ok_extend: "dict_ok d \<Longrightarrow> xs \<noteq> [] \<Longrightarrow> dict_ok (dict_extend k xs d)"
  by (simp add: dict_ok_def dict_extend_def distinct_update list_all_update)

lemma dict_ok_map_of:
  assumes "dict_ok d"
  shows "map_of d b = (if entries_of d b = [] then None else Some (entries_of d b))"
proof (cases "map_of d b")
  case None
  then show ?thesis by (simp add: entries_of_def)
next
  case (Some ys)
  then have "(b, ys) \<in> set d" by (rule map_of_SomeD)
  with assms have "ys \<noteq> []" by (auto simp: dict_ok_def list_all_iff)
  with Some show ?thesis by (simp add: entries_of_def)
qed

text \<open>One entry, one vertex, one chunk.\<close>

lemma add_weight_entries:
  "entries_of (add_weight vgs bone_names i g d) b
     = entries_of d b @ (if entry_for vgs bone_names b g then [(i, ge_weight g)] else [])"
  by (auto simp: add_weight_def entry_for_def entries_of_dict_extend Let_def)

lemma add_weight_ok: "dict_ok d \<Longrightarrow> dict_ok (add_weight vgs bone_names i g d)"
  by (simp add: add_weight_def Let_def dict_ok_extend)

lemma fold_add_weight_entries:
  "entries_of (fold (add_weight vgs bone_names i) v d) b
     = entries_of d b @ map (\<lambda>g. (i, ge_weight g)) (filter (entry_for vgs bone_names b) v)"
  by (induction v arbitrary: d) (simp_all add: add_weight_entries)

lemma fold_add_weight_ok:
  "dict_ok d \<Longrightarrow> dict_ok (fold (add_weight vgs bone_names i) v d)"
  by (induction v arbitrary: d) (simp_all add: add_weight_ok)

lemma fold_chunk_entries:
  "entries_of (fold (\<lambda>(i, v) d. fold (add_weight vgs bone_names i) v d) chunk d) b
     = entries_of d b @ chunk_entries vgs bone_names b chunk"
  by (induction chunk arbitrary: d)
     (auto simp: chunk_entries_def fold_add_weight_entries)

lemma fold_chunk_ok:
  "dict_ok d \<Longrightarrow> dict_ok (fold (\<lambda>(i, v) d. fold (add_weight vgs bone_names i) v d) chunk d)"
  by (induction chunk arbitrary: d) (auto simp: fold_add_weight_ok)

lemma process_chunk_entries:
  "entries_of (process_chunk vgs bone_names chunk) b = chunk_entries vgs bone_names b chunk"
  by (simp add: process_chunk_def fold_chunk_entries entries_of_empty)

lemma process_chunk_ok: "dict_ok (process_chunk vgs bone_names chunk)"
  by (simp add: process_chunk_def fold_chunk_ok dict_ok_empty)

lemma chunk_entries_append:
  "chunk_entries vgs bone_names b (xs @ ys)
     = chunk_entries vgs bone_names b xs @ chunk_entries vgs bone_names b ys"
  by (simp add: chunk_entries_def)

text \<open>The merge.\<close>

lemma merge_one_entries:
  "distinct (map fst cr)
   \<Longrightarrow> entries_of (fold (\<lambda>(bone_name, weights) d. dict_extend bone_name weights d) cr d) b
       = entries_of d b @ entries_of cr b"
proof (induction cr arbitrary: d)
  case Nil
  then show ?case by (simp add: entries_of_empty)
next
  case (Cons p cr)
  obtain k ws where p: "p = (k, ws)" by (cases p)
  from Cons.prems p have k: "k \<notin> fst ` set cr" and dist: "distinct (map fst cr)"
    by auto
  from k have "map_of cr k = None"
    by (simp add: map_of_eq_None_iff)
  then have none: "entries_of cr k = []"
    by (simp add: entries_of_def)
  have hd: "entries_of ((k, ws) # cr) b = (if b = k then ws else entries_of cr b)"
    by (simp add: entries_of_def)
  have "entries_of (fold (\<lambda>(bone_name, weights) d. dict_extend bone_name weights d) (p # cr) d) b
        = entries_of (dict_extend k ws d) b @ entries_of cr b"
    using Cons.IH [OF dist, of "dict_extend k ws d"] by (simp add: p)
  also have "\<dots> = entries_of d b @ (if b = k then ws else []) @ entries_of cr b"
    by (simp add: entries_of_dict_extend)
  also have "\<dots> = entries_of d b @ entries_of ((k, ws) # cr) b"
    using none by (simp add: hd)
  finally show ?case by (simp add: p)
qed

lemma merge_one_ok:
  "dict_ok cr \<Longrightarrow> dict_ok d
   \<Longrightarrow> dict_ok (fold (\<lambda>(bone_name, weights) d. dict_extend bone_name weights d) cr d)"
proof (induction cr arbitrary: d)
  case Nil
  then show ?case by simp
next
  case (Cons p cr)
  obtain k ws where p: "p = (k, ws)" by (cases p)
  from Cons.prems(1) p have ws: "ws \<noteq> []" and cr: "dict_ok cr"
    by (auto simp: dict_ok_def)
  from Cons.IH [OF cr dict_ok_extend [OF Cons.prems(2) ws]] show ?case
    by (simp add: p)
qed

lemma merge_fold_entries:
  "list_all dict_ok results
   \<Longrightarrow> entries_of (fold (\<lambda>chunk_result d.
          fold (\<lambda>(bone_name, weights) d. dict_extend bone_name weights d) chunk_result d) results d) b
       = entries_of d b @ concat (map (\<lambda>cr. entries_of cr b) results)"
  by (induction results arbitrary: d) (auto simp: merge_one_entries dict_ok_def)

lemma merge_fold_ok:
  "list_all dict_ok results \<Longrightarrow> dict_ok d
   \<Longrightarrow> dict_ok (fold (\<lambda>chunk_result d.
          fold (\<lambda>(bone_name, weights) d. dict_extend bone_name weights d) chunk_result d) results d)"
  by (induction results arbitrary: d) (auto simp: merge_one_ok)

lemma merge_results_entries:
  "list_all dict_ok results
   \<Longrightarrow> entries_of (merge_results results) b = concat (map (\<lambda>cr. entries_of cr b) results)"
  by (simp add: merge_results_def merge_fold_entries entries_of_empty)

lemma merge_results_ok: "list_all dict_ok results \<Longrightarrow> dict_ok (merge_results results)"
  by (simp add: merge_results_def merge_fold_ok dict_ok_empty)

text \<open>The chunks.\<close>

lemma chunk_results_ok: "list_all dict_ok (chunk_results vgs bone_names chunk_size start_idx ivs)"
proof (induction vgs bone_names chunk_size start_idx ivs rule: chunk_results.induct)
  case (1 vgs bone_names chunk_size start_idx ivs)
  then show ?case
    by (subst chunk_results.simps) (simp add: process_chunk_ok Let_def)
qed

lemma chunk_split:
  assumes "0 < chunk_size" and "start_idx < length ivs"
  shows "take (min (start_idx + chunk_size) (length ivs) - start_idx) (drop start_idx ivs)
           @ drop (start_idx + chunk_size) ivs = drop start_idx ivs"
proof (cases "start_idx + chunk_size \<le> length ivs")
  case True
  then have m: "min (start_idx + chunk_size) (length ivs) - start_idx = chunk_size" by simp
  show ?thesis
    unfolding m using append_take_drop_id [of chunk_size "drop start_idx ivs"]
    by (simp add: add.commute)
next
  case False
  then show ?thesis by simp
qed

lemma chunk_results_entries:
  "0 < chunk_size
   \<Longrightarrow> concat (map (\<lambda>cr. entries_of cr b) (chunk_results vgs bone_names chunk_size start_idx ivs))
       = chunk_entries vgs bone_names b (drop start_idx ivs)"
proof (induction vgs bone_names chunk_size start_idx ivs rule: chunk_results.induct)
  case (1 vgs bone_names chunk_size start_idx ivs)
  show ?case
  proof (cases "start_idx < length ivs")
    case True
    have "concat (map (\<lambda>cr. entries_of cr b) (chunk_results vgs bone_names chunk_size start_idx ivs))
          = chunk_entries vgs bone_names b
              (take (min (start_idx + chunk_size) (length ivs) - start_idx) (drop start_idx ivs))
            @ chunk_entries vgs bone_names b (drop (start_idx + chunk_size) ivs)"
      using True "1.prems" "1.IH" [OF _ refl refl]
      by (subst chunk_results.simps) (simp add: Let_def process_chunk_entries)
    also have "\<dots> = chunk_entries vgs bone_names b (drop start_idx ivs)"
      using chunk_split [OF "1.prems" True]
      by (simp flip: chunk_entries_append)
    finally show ?thesis .
  next
    case False
    then show ?thesis
      by (subst chunk_results.simps) (simp add: chunk_entries_def)
  qed
qed

text \<open>The table against the specification.\<close>

lemma chunk_entries_spec:
  "chunk_entries vgs bone_names b ivs = (if b \<in> bone_names then group_entries vgs b ivs else [])"
proof (cases "b \<in> bone_names")
  case True
  then have "entry_for vgs bone_names b = (\<lambda>g. ge_group g < length vgs \<and> vgs ! ge_group g = b)"
    by (intro ext) (simp add: entry_for_def)
  with True show ?thesis by (simp add: chunk_entries_def group_entries_def)
next
  case False
  then have "entry_for vgs bone_names b = (\<lambda>g. False)"
    by (intro ext) (simp add: entry_for_def)
  with False show ?thesis by (simp add: chunk_entries_def)
qed

lemma dict_ok_spec:
  assumes "dict_ok d"
    and "\<And>b. entries_of d b = chunk_entries (ob_vertex_groups obj) bone_names b (enumerate 0 (me_vertices me))"
  shows "map_of d = weights_spec obj me bone_names"
proof
  fix b
  show "map_of d b = weights_spec obj me bone_names b"
    using dict_ok_map_of [OF assms(1), of b] assms(2) [of b]
    by (auto simp: weights_spec_def chunk_entries_spec Let_def)
qed

lemma chunked_table:
  assumes "0 < chunk_size"
  shows "dict_ok (merge_results (chunk_results (ob_vertex_groups obj) bone_names chunk_size 0
                    (enumerate 0 (me_vertices me))))"
    and "map_of (merge_results (chunk_results (ob_vertex_groups obj) bone_names chunk_size 0
                    (enumerate 0 (me_vertices me))))
         = weights_spec obj me bone_names"
proof -
  let ?d = "merge_results (chunk_results (ob_vertex_groups obj) bone_names chunk_size 0
                    (enumerate 0 (me_vertices me)))"
  show ok: "dict_ok ?d"
    by (simp add: merge_results_ok chunk_results_ok)
  have "entries_of ?d b
        = chunk_entries (ob_vertex_groups obj) bone_names b (enumerate 0 (me_vertices me))" for b
    using chunk_results_entries [OF assms, of b "ob_vertex_groups obj" bone_names 0
            "enumerate 0 (me_vertices me)"]
    by (simp add: merge_results_entries chunk_results_ok)
  with ok show "map_of ?d = weights_spec obj me bone_names"
    by (rule dict_ok_spec)
qed

lemma single_chunk_table:
  "map_of (merge_results [process_chunk (ob_vertex_groups obj) bone_names (enumerate 0 (me_vertices me))])
     = weights_spec obj me bone_names"
proof -
  let ?d = "merge_results [process_chunk (ob_vertex_groups obj) bone_names (enumerate 0 (me_vertices me))]"
  have ok: "dict_ok ?d"
    by (simp add: merge_results_ok process_chunk_ok)
  have "entries_of ?d b
        = chunk_entries (ob_vertex_groups obj) bone_names b (enumerate 0 (me_vertices me))" for b
    by (simp add: merge_results_entries process_chunk_ok process_chunk_entries)
  with ok show ?thesis
    by (rule dict_ok_spec)
qed

text \<open>The entries of a group come in ascending vertex index.\<close>

lemma group_entries_lower:
  "(i, w) \<in> set (group_entries vgs b (enumerate n vs)) \<Longrightarrow> n \<le> i"
proof (induction vs arbitrary: n)
  case Nil
  then show ?case by (simp add: group_entries_def)
next
  case (Cons v vs)
  from Cons.prems have "i = n \<or> (i, w) \<in> set (group_entries vgs b (enumerate (Suc n) vs))"
    by (auto simp: group_entries_def)
  with Cons.IH [of "Suc n"] show ?case by auto
qed

lemma sorted_same_index: "sorted (map fst (map (\<lambda>g. (n :: nat, f g)) xs))"
  by (induction xs) auto

lemma group_entries_sorted: "sorted (map fst (group_entries vgs b (enumerate n vs)))"
proof (induction vs arbitrary: n)
  case Nil
  then show ?case by (simp add: group_entries_def)
next
  case (Cons v vs)
  have split: "group_entries vgs b (enumerate n (v # vs))
        = map (\<lambda>g. (n, ge_weight g)) (filter (\<lambda>g. ge_group g < length vgs \<and> vgs ! ge_group g = b) v)
          @ group_entries vgs b (enumerate (Suc n) vs)"
    by (simp add: group_entries_def)
  have "\<forall>x \<in> set (map fst (map (\<lambda>g. (n, ge_weight g))
                 (filter (\<lambda>g. ge_group g < length vgs \<and> vgs ! ge_group g = b) v))).
        \<forall>y \<in> set (map fst (group_entries vgs b (enumerate (Suc n) vs))). x \<le> y"
    using group_entries_lower [of _ _ vgs b "Suc n" vs] by fastforce
  then show ?case
    unfolding split map_append
    by (simp only: sorted_append sorted_same_index Cons.IH simp_thms)
qed

lemma weights_spec_sorted:
  "weights_spec obj me bone_names b = Some es \<Longrightarrow> sorted (map fst es)"
  by (auto simp: weights_spec_def Let_def group_entries_sorted split: if_splits)

lemma table_sorted:
  assumes "distinct (map fst d)" and "map_of d = weights_spec obj me bone_names"
  shows "list_all (\<lambda>p. sorted (map fst (snd p))) d"
proof -
  have "sorted (map fst (snd p))" if "p \<in> set d" for p
  proof -
    have "map_of d (fst p) = Some (snd p)"
      using map_of_is_SomeI [OF assms(1), of "fst p" "snd p"] that by simp
    with assms(2) show ?thesis
      using weights_spec_sorted by metis
  qed
  then show ?thesis by (simp add: list_all_iff)
qed

text \<open>
Claim C9. For a mesh object, a set of bone names and a chunk size of at least one,
  \<open>optimize_weight_calculation\<close> returns a table whose keys are distinct and which maps
  a bone name exactly when it is in \<open>bone_names\<close> and names a vertex group referenced
  with a valid group index by some vertex, to the pairs (vertex index, weight) of that
  group's entries in ascending vertex index. The table does not depend on the chunk
  size: it is the table of a single chunk holding every vertex, and the one returned for
  a chunk size equal to the number of vertices when the mesh has any.
\<close>

theorem optimize_weight_calculation_chunk_independent:
  assumes "ob_data obj = MeshData me" and "0 < chunk_size"
  shows "\<exists>d. optimize_weight_calculation clock obj bone_names chunk_size
               = Inr (d, timed_operation ''optimize_weight_calculation'' (fst clock) (snd clock))
          \<and> distinct (map fst d)
          \<and> map_of d = weights_spec obj me bone_names
          \<and> map_of d = map_of (merge_results
                [process_chunk (ob_vertex_groups obj) bone_names (enumerate 0 (me_vertices me))])
          \<and> list_all (\<lambda>p. sorted (map fst (snd p))) d
          \<and> (0 < length (me_vertices me) \<longrightarrow>
               (\<exists>d1. optimize_weight_calculation_body obj bone_names (int (length (me_vertices me)))
                       = Inr d1 \<and> map_of d1 = map_of d))"
proof -
  define d where
    "d = merge_results (chunk_results (ob_vertex_groups obj) bone_names (nat chunk_size) 0
           (enumerate 0 (me_vertices me)))"
  have pos: "0 < nat chunk_size" using assms(2) by simp
  have ok: "dict_ok d" and spec: "map_of d = weights_spec obj me bone_names"
    unfolding d_def using chunked_table [OF pos] by blast+
  have dist: "distinct (map fst d)"
    using ok by (simp add: dict_ok_def)
  have run: "optimize_weight_calculation clock obj bone_names chunk_size
               = Inr (d, timed_operation ''optimize_weight_calculation'' (fst clock) (snd clock))"
    using assms by (simp add: optimize_weight_calculation_def optimize_weight_calculation_body_def d_def)
  have total: "\<exists>d1. optimize_weight_calculation_body obj bone_names (int (length (me_vertices me)))
                       = Inr d1 \<and> map_of d1 = map_of d" if "0 < length (me_vertices me)"
  proof -
    have "optimize_weight_calculation_body obj bone_names (int (length (me_vertices me)))
          = Inr (merge_results (chunk_results (ob_vertex_groups obj) bone_names
                   (length (me_vertices me)) 0 (enumerate 0 (me_vertices me))))"
      using that assms(1) by (simp add: optimize_weight_calculation_body_def)
    moreover have "map_of (merge_results (chunk_results (ob_vertex_groups obj) bone_names
                   (length (me_vertices me)) 0 (enumerate 0 (me_vertices me)))) = map_of d"
      using chunked_table(2) [OF that] spec by simp
    ultimately show ?thesis by blast
  qed
  show ?thesis
    using run dist spec single_chunk_table [of obj bone_names me] table_sorted [OF dist spec] total
    by auto
qed

lemma body_weights:
  "weights_spec body_object body_mesh {''Hip'', ''Chest'', ''Tail''} ''Hip''
     = Some [(0, 1), (1, 1 / 2), (4, 1)]"
  "weights_spec body_object body_mesh {''Hip'', ''Chest'', ''Tail''} ''Chest''
     = Some [(1, 1 / 2), (2, 1), (3, 3 / 4)]"
  "weights_spec body_object body_mesh {''Hip'', ''Chest'', ''Tail''} ''Control'' = None"
  "weights_spec body_object body_mesh {''Hip'', ''Chest'', ''Tail''} ''Tail'' = None"
  by (simp_all add: weights_spec_def group_entries_def body_object_def body_mesh_def)

theorem optimize_weight_calculation_chunk_independent_witness:
  "ob_data body_object = MeshData body_mesh \<and> (0 :: int) < 2
   \<and> (\<exists>d. optimize_weight_calculation (0, 0) body_object {''Hip'', ''Chest'', ''Tail''} 2 = Inr (d, [])
          \<and> map_of d ''Hip'' = Some [(0, 1), (1, 1 / 2), (4, 1)]
          \<and> map_of d ''Chest'' = Some [(1, 1 / 2), (2, 1), (3, 3 / 4)]
          \<and> map_of d ''Control'' = None
          \<and> map_of d ''Tail'' = None)"
proof -
  have h1: "ob_data body_object = MeshData body_mesh"
    by (simp add: body_object_def)
  have h2: "(0 :: int) < 2" by simp
  from optimize_weight_calculation_chunk_independent
         [OF h1 h2, of "(0, 0)" "{''Hip'', ''Chest'', ''Tail''}"]
  obtain d where
    run: "optimize_weight_calculation (0, 0) body_object {''Hip'', ''Chest'', ''Tail''} 2
            = Inr (d, timed_operation ''optimize_weight_calculation'' (fst (0 :: rat, 0 :: rat)) (snd (0 :: rat, 0 :: rat)))"
    and spec: "map_of d = weights_spec body_object body_mesh {''Hip'', ''Chest'', ''Tail''}"
    by blast
  have "optimize_weight_calculation (0, 0) body_object {''Hip'', ''Chest'', ''Tail''} 2 = Inr (d, [])"
    using run by (simp add: timed_operation_def)
  then show ?thesis
    using h1 spec body_weights by auto
qed

subsection \<open>Reducing triangles\<close>

lemma active_object_scene_heavy: "active_object scene_heavy = Some (''Heavy'', heavy_object)"
  by (simp add: active_object_def scene_heavy_def)

lemma triangle_count_heavy: "triangle_count heavy_mesh = 32769"
  by (simp add: triangle_count_def heavy_mesh_def range_len_def sum_list_replicate)

text \<open>
  Claim C2 as stated, that running the operator reduces the triangle count of the mesh
  towards the ratio, fails: on a mesh of 32769 triangles and the ratio one half the
  operator finishes and the mesh still has 32769 triangles, over the limit of 32768.
\<close>

theorem animesh_reduce_triangles_keeps_mesh_counterexample:
  "object_triangles scene_heavy ''Heavy'' = Some 32769
   \<and> ANIMESH_MAX_TRIANGLES < 32769
   \<and> (\<exists>st' evs. animesh_reduce_triangles (1 / 2) scene_heavy = Inr (FINISHED, st', evs)
          \<and> object_triangles st' ''Heavy'' = Some 32769)"
proof -
  have "object_triangles scene_heavy ''Heavy'' = Some 32769"
    by (simp add: object_triangles_def scene_heavy_def heavy_object_def triangle_count_heavy)
  moreover have "ANIMESH_MAX_TRIANGLES < 32769"
    by (simp add: ANIMESH_MAX_TRIANGLES_def)
  moreover have "\<exists>st' evs. animesh_reduce_triangles (1 / 2) scene_heavy = Inr (FINISHED, st', evs)
          \<and> object_triangles st' ''Heavy'' = Some 32769"
    by (simp add: animesh_reduce_triangles_def active_object_scene_heavy Let_def
          object_triangles_def heavy_object_def triangle_count_heavy)
  ultimately show ?thesis by blast
qed

text \<open>
Claim C2, as amended. For an active mesh object and a ratio \<open>r\<close>,
  \<open>animesh_reduce_triangles\<close> returns \<open>{'FINISHED'}\<close> after appending to the object's
  modifier stack a DECIMATE modifier named Animesh_Decimate (made unique among the
  object's modifiers) with decimate type COLLAPSE, ratio \<open>r\<close> and triangulation on. It
  does so whatever the triangle count is, and the mesh data of the object, so its
  triangle count, is what it was: the reduction is left to the host's evaluation of
  the modifier.
\<close>

theorem animesh_reduce_triangles_adds_modifier:
  assumes "active_object st = Some (nm, obj)" and "ob_type obj = ''MESH''"
  shows "\<exists>st'. animesh_reduce_triangles ratio st
           = Inr (FINISHED, st',
               [Report ''INFO'' (''Added decimate modifier with '' @ format_f0 (ratio * 100)
                  @ ''% ratio'')])
         \<and> st' = st\<lparr>objects := (objects st)(nm \<mapsto> obj\<lparr>ob_modifiers := ob_modifiers obj @
               [\<lparr>md_name = unique_name (map md_name (ob_modifiers obj)) ''Animesh_Decimate'',
                 md_type = ''DECIMATE'', md_object = None, md_decimate_type = ''COLLAPSE'',
                 md_ratio = ratio, md_use_collapse_triangulate = True\<rparr>]\<rparr>)\<rparr>
         \<and> map_option ob_data (objects st' nm) = Some (ob_data obj)
         \<and> object_triangles st' nm = object_triangles st nm"
proof -
  have "objects st nm = Some obj"
    using assms(1) by (auto simp: active_object_def split: option.splits)
  then show ?thesis
    using assms
    by (simp add: animesh_reduce_triangles_def Let_def modifiers_new_def object_triangles_def)
qed

theorem animesh_reduce_triangles_adds_modifier_witness:
  "active_object scene_heavy = Some (''Heavy'', heavy_object) \<and> ob_type heavy_object = ''MESH''
   \<and> (\<exists>st' evs. animesh_reduce_triangles (1 / 2) scene_heavy = Inr (FINISHED, st', evs)
        \<and> map_option ob_modifiers (objects st' ''Heavy'')
            = Some [\<lparr>md_name = ''Animesh_Decimate'', md_type = ''DECIMATE'', md_object = None,
                     md_decimate_type = ''COLLAPSE'', md_ratio = 1 / 2,
                     md_use_collapse_triangulate = True\<rparr>]
        \<and> object_triangles st' ''Heavy'' = object_triangles scene_heavy ''Heavy'')"
proof -
  have h2: "ob_type heavy_object = ''MESH''"
    by (simp add: heavy_object_def)
  have m: "ob_modifiers heavy_object = []"
    by (simp add: heavy_object_def)
  show ?thesis
    using animesh_reduce_triangles_adds_modifier [OF active_object_scene_heavy h2, of "1 / 2"]
      active_object_scene_heavy h2
    by (auto simp: m unique_name_def)
qed

subsection \<open>Adding a layer slot\<close>


lemma first_named_None: "first_named nm ns = None \<longleftrightarrow> nm \<notin> set (map nd_name ns)"
  by (induction ns) auto

lemma node_template_tex:
  "node_template ''ShaderNodeTexImage''
     = Some \<lparr>nd_name = ''Image Texture'', nd_label = [], nd_idname = ''ShaderNodeTexImage'',
             nd_location = (0, 0), nd_inputs = [(''Vector'', None)],
             nd_outputs = [''Color'', ''Alpha''], nd_image = None\<rparr>"
  by (simp add: node_template_def)


lemma add_layer_node_no_socket:
  assumes "bsdf < length (nt_nodes t)"
    and "''Base Color'' \<notin> set (map fst (nd_inputs (nt_nodes t ! bsdf)))"
  shows "add_layer_node lname img_name bsdf t = Inl KeyError"
  using assms
  by (simp add: add_layer_node_def nodes_new_def node_template_tex Let_def set_node_name_def
        update_node_def links_new_def nth_append)





lemma active_object_scene_bom: "active_object scene_bom = Some (''Body'', bom_body_object)"
  by (simp add: active_object_def scene_bom_def)




lemma bom_body_object_mesh: "ob_type bom_body_object = ''MESH''"
  by (simp add: bom_body_object_def body_object_def)



subsection \<open>Setting up the material\<close>

lemma node_tree_fields: "t\<lparr>nt_nodes := ns, nt_links := ls\<rparr> = \<lparr>nt_nodes = ns, nt_links = ls\<rparr>"
  by (cases t) simp

lemma build_bom_nodes_result: "build_bom_nodes t = Inr bom_node_tree"
  by (simp add: build_bom_nodes_def nodes_clear_def nodes_new_def node_template_def unique_name_def
        update_node_def links_new_def set_default_value_def bom_node_tree_def Let_def
        node_tree_fields)

lemma bom_setup_material_run:
  assumes "active_object st = Some (nm, obj)" and "ob_type obj = ''MESH''"
    and "ob_data obj = MeshData me" and "me_uv_layers me \<noteq> []"
    and "mt_node_tree (case materials st (nm @ ''_BoM'') of
                          None \<Rightarrow> enable_use_nodes new_material | Some m \<Rightarrow> m) = Some t"
  shows "bom_setup_material st
         = Inr (FINISHED,
             st\<lparr>materials := (materials st)(nm @ ''_BoM'' \<mapsto>
                   (case materials st (nm @ ''_BoM'') of
                      None \<Rightarrow> enable_use_nodes new_material | Some m \<Rightarrow> m)
                   \<lparr>mt_node_tree := Some bom_node_tree\<rparr>),
                objects := (objects st)(nm \<mapsto> obj\<lparr>ob_data :=
                   MeshData (me\<lparr>me_materials := assigned_slots (me_materials me) (nm @ ''_BoM'')\<rparr>)\<rparr>)\<rparr>,
             [Report ''INFO'' (''BoM material '' @ [CHR 0x27] @ nm @ ''_BoM'' @ [CHR 0x27]
                @ '' created successfully'')])"
  using assms
  by (simp add: bom_setup_material_def Let_def build_bom_nodes_result assigned_slots_def)

text \<open>
  For an active mesh object with a UV layer, when no material \<open><object name>_BoM\<close>
  exists yet or the one that exists uses nodes, \<open>bom_setup_material\<close> returns
  \<open>{'FINISHED'}\<close> and leaves that material with \<open>use_nodes\<close> set and the tree of
  exactly a Principled BSDF (Specular 0, Roughness 1) and a Material Output, BSDF linked
  to Surface; the material is in slot 0 of the mesh, replacing what was there, or is the
  only slot when there was none.
\<close>

theorem bom_setup_material_result:
  assumes "active_object st = Some (nm, obj)" and "ob_type obj = ''MESH''"
    and "ob_data obj = MeshData me" and "me_uv_layers me \<noteq> []"
    and "materials st (nm @ ''_BoM'') = None
         \<or> materials st (nm @ ''_BoM'') = Some \<lparr>mt_use_nodes = True, mt_node_tree = Some t\<rparr>"
  shows "bom_setup_material st
         = Inr (FINISHED,
             st\<lparr>materials := (materials st)(nm @ ''_BoM'' \<mapsto>
                   \<lparr>mt_use_nodes = True, mt_node_tree = Some bom_node_tree\<rparr>),
                objects := (objects st)(nm \<mapsto> obj\<lparr>ob_data :=
                   MeshData (me\<lparr>me_materials := assigned_slots (me_materials me) (nm @ ''_BoM'')\<rparr>)\<rparr>)\<rparr>,
             [Report ''INFO'' (''BoM material '' @ [CHR 0x27] @ nm @ ''_BoM'' @ [CHR 0x27]
                @ '' created successfully'')])
       \<and> assigned_slots (me_materials me) (nm @ ''_BoM'') ! 0 = Some (nm @ ''_BoM'')
       \<and> length (assigned_slots (me_materials me) (nm @ ''_BoM'')) = max 1 (length (me_materials me))"
proof -
  from assms(5) show ?thesis
  proof
    assume none: "materials st (nm @ ''_BoM'') = None"
    then have "mt_node_tree (case materials st (nm @ ''_BoM'') of
                          None \<Rightarrow> enable_use_nodes new_material | Some m \<Rightarrow> m) = Some default_node_tree"
      by (simp add: enable_use_nodes_def new_material_def)
    from bom_setup_material_run [OF assms(1-4) this] none show ?thesis
      by (cases "me_materials me")
         (simp_all add: enable_use_nodes_def new_material_def assigned_slots_def)
  next
    assume some: "materials st (nm @ ''_BoM'') = Some \<lparr>mt_use_nodes = True, mt_node_tree = Some t\<rparr>"
    then have "mt_node_tree (case materials st (nm @ ''_BoM'') of
                          None \<Rightarrow> enable_use_nodes new_material | Some m \<Rightarrow> m) = Some t"
      by simp
    from bom_setup_material_run [OF assms(1-4) this] some show ?thesis
      by (cases "me_materials me") (simp_all add: assigned_slots_def)
  qed
qed


lemma bom_body_object_data:
  "ob_data bom_body_object = MeshData (body_mesh\<lparr>me_materials := [Some ''Body_BoM'']\<rparr>)"
  by (simp add: bom_body_object_def body_object_def)


theorem bom_setup_material_result_witness:
  "active_object scene_bom = Some (''Body'', bom_body_object)
   \<and> materials scene_bom (''Body'' @ ''_BoM'')
       = Some \<lparr>mt_use_nodes = True, mt_node_tree = Some default_node_tree\<rparr>
   \<and> (\<exists>st' evs. bom_setup_material scene_bom = Inr (FINISHED, st', evs)
          \<and> materials st' ''Body_BoM'' = Some \<lparr>mt_use_nodes = True, mt_node_tree = Some bom_node_tree\<rparr>
          \<and> map_option ob_data (objects st' ''Body'')
              = Some (MeshData (body_mesh\<lparr>me_materials := [Some ''Body_BoM'']\<rparr>)))"
proof -
  have uv: "me_uv_layers (body_mesh\<lparr>me_materials := [Some ''Body_BoM'']\<rparr>) \<noteq> []"
    by (simp add: body_mesh_def)
  have m: "materials scene_bom (''Body'' @ ''_BoM'')
             = Some \<lparr>mt_use_nodes = True, mt_node_tree = Some default_node_tree\<rparr>"
    by (simp add: scene_bom_def)
  then have m': "materials scene_bom (''Body'' @ ''_BoM'') = None
         \<or> materials scene_bom (''Body'' @ ''_BoM'')
             = Some \<lparr>mt_use_nodes = True, mt_node_tree = Some default_node_tree\<rparr>"
    by simp
  note t = bom_setup_material_result
             [OF active_object_scene_bom bom_body_object_mesh bom_body_object_data uv m']
  have "\<exists>st' evs. bom_setup_material scene_bom = Inr (FINISHED, st', evs)
          \<and> materials st' ''Body_BoM'' = Some \<lparr>mt_use_nodes = True, mt_node_tree = Some bom_node_tree\<rparr>
          \<and> map_option ob_data (objects st' ''Body'')
              = Some (MeshData (body_mesh\<lparr>me_materials := [Some ''Body_BoM'']\<rparr>))"
    using t by (simp add: assigned_slots_def)
  then show ?thesis
    using active_object_scene_bom m by blast
qed

end
